theory Spec2Isabelle
  imports Complex_Main "HOL-Library.Sublist"
begin

section \<open>Conventions\<close>

text \<open>
  The calibration bench simulator is a JavaScript (React) program; its numbers are
  IEEE-754 doubles.  Measured values, tolerances and offsets are modelled as reals, the
  rounding of their arithmetic abstracted away, and the non-finite doubles have no
  counterpart (the one division whose divisor depends on the input is guarded in the
  model, see \<open>js_div\<close>).  Where a result of the store depends on the rounding, the
  rounding is modelled: a component id or a counter is an integer that a double
  represents, and the counters are incremented by \<open>js_add1\<close>, which is exact up to
  \<open>2^53\<close> only; the index that the store draws with \<open>Math.random()\<close> is
  \<open>floorTimes3\<close>, the floor of the rounded product.  The results of
  \<open>Math.random()\<close> are inputs of the functions that call it.  The timers that schedule
  the fluctuation are not modelled, only what one tick computes.  A field that the code
  reads through a guard (\<open>?.\<close>, \<open>|| default\<close>, \<open>=== null\<close>) is an \<open>option\<close>,
  \<open>None\<close> standing for \<open>undefined\<close> or \<open>null\<close>.  Names that are Isabelle
  keywords or HOL constants (\<open>from\<close>, \<open>to\<close>, \<open>type\<close>, \<open>id\<close>, \<open>value\<close>,
  \<open>power\<close>, \<open>unit\<close>) carry the prefix of their record.
\<close>

section \<open>Data model of the store (SimulatorContext.jsx)\<close>

text \<open>\<open>wireProperties: { type: 'standard', resistance: 0.05 }\<close>\<close>

record wire_properties =
  wp_type :: "string option"
  wp_resistance :: "real option"

text \<open>A connection \<open>{ from, to, polarity, wireProperties }\<close>.\<close>

record connection =
  c_from :: int
  c_to :: int
  c_polarity :: string
  c_wireProperties :: "wire_properties option"

text \<open>
  The device state is an open object; these are the fields the store and the measuring
  devices read.  A device type that has no such field never has it read with effect.
\<close>

record device_state =
  st_power :: bool
  st_output :: bool
  st_rfOn :: bool
  st_mode :: "string option"
  st_value :: real
  st_unit :: string
  st_frequency :: "real option"
  st_level :: real
  st_complianceStatus :: "string option"

text \<open>A placed component \<open>{ id, type, x, y, state }\<close>.\<close>

record component =
  cmp_id :: int
  cmp_type :: string
  cmp_x :: real
  cmp_y :: real
  cmp_state :: device_state

text \<open>The payload of \<open>SET_CONNECTION_START\<close>: \<open>{ componentId, type, polarity }\<close>.\<close>

record start_point =
  sp_componentId :: int
  sp_type :: string
  sp_polarity :: string

text \<open>
  The texts of the notifications are Thai strings in the source; each constructor stands
  for one of them.
  \<^item> \<open>DEVICE_NOT_FOUND\<close>: the message of \<open>if (!fromComp || !toComp)\<close>;
  \<^item> \<open>UNSUPPORTED_SOURCE_ROLE\<close>: the message of \<open>if (!isFromCalibrator)\<close>;
  \<^item> \<open>UNSUPPORTED_SINK_ROLE\<close>: the message of \<open>if (!isToUUC)\<close>;
  \<^item> \<open>DUPLICATE_POLARITY l\<close>: the message of \<open>if (existingConnection)\<close>, built from
    the polarity label \<open>l\<close>;
  \<^item> \<open>CONNECT_OK\<close>: the message of the final \<open>return { valid: true, ... }\<close>;
  \<^item> \<open>TITLE_OK\<close>, \<open>TITLE_FAILED\<close>: the two alert titles of \<open>addConnection\<close>;
  \<^item> \<open>WIRE_CONNECTED l\<close>: the success text of \<open>addConnection\<close>, built from the
    polarity label \<open>l\<close>.
\<close>

datatype message =
    DEVICE_NOT_FOUND
  | UNSUPPORTED_SOURCE_ROLE
  | UNSUPPORTED_SINK_ROLE
  | DUPLICATE_POLARITY string
  | CONNECT_OK
  | TITLE_OK
  | TITLE_FAILED
  | WIRE_CONNECTED string

text \<open>The payload of \<open>ADD_ALERT\<close>, \<open>{ type, title, message }\<close>, and the stored alert.\<close>

record alert_payload =
  al_type :: string
  al_title :: message
  al_message :: message

record alert = alert_payload +
  al_id :: int

record error_simulation =
  loadingError :: bool
  resolutionUncertainty :: bool
  instrumentError :: bool

record sim_state =
  components :: "component list"
  connections :: "connection list"
  componentIdCounter :: int
  connectionStartPoint :: "start_point option"
  alerts :: "alert list"
  alertIdCounter :: int
  uncertaintyMode :: bool
  errorSimulation :: error_simulation

definition COMPLIANCE_STATUSES :: "string list" where
  "COMPLIANCE_STATUSES = [''compliance'', ''non_compliance'', ''out_of_tolerance'']"

definition initialState :: sim_state where
  "initialState =
     \<lparr> components = [], connections = [], componentIdCounter = 0,
       connectionStartPoint = None, alerts = [], alertIdCounter = 0,
       uncertaintyMode = False,
       errorSimulation =
         \<lparr> loadingError = False, resolutionUncertainty = False, instrumentError = False \<rparr> \<rparr>"

section \<open>Device registry (deviceRegistry.js)\<close>

text \<open>
  A device configuration: its type, its role and its initial state, the latter restricted
  to the fields of \<open>device_state\<close>.
\<close>

record device_config =
  dc_type :: string
  dc_role :: string
  dc_initialState :: device_state

text \<open>The state with every field absent.\<close>

definition no_fields :: device_state where
  "no_fields =
     \<lparr> st_power = False, st_output = False, st_rfOn = False, st_mode = None, st_value = 0,
       st_unit = [], st_frequency = None, st_level = 0, st_complianceStatus = None \<rparr>"

text \<open>
  \<open>DEVICES\<close>, in the order in which the object literal lists its keys.  The
  configurations are those of the device packages' \<open>index.js\<close> files (for the
  Fluke 5500A, whose \<open>index.js\<close> is not among the sources, of its \<open>config.js\<close>).
\<close>

definition DEVICES :: "device_config list" where
  "DEVICES =
   [ \<lparr> dc_type = ''sma100a'', dc_role = ''calibrator'',
       dc_initialState = no_fields \<lparr> st_power := True, st_frequency := Some 6, st_level := 15,
         st_rfOn := False \<rparr> \<rparr>,
     \<lparr> dc_type = ''fpc1500'', dc_role = ''uuc'',
       dc_initialState = no_fields \<lparr> st_power := True \<rparr> \<rparr>,
     \<lparr> dc_type = ''fluke5500a'', dc_role = ''calibrator'',
       dc_initialState = no_fields \<lparr> st_power := True, st_output := False,
         st_mode := Some ''DC Voltage'', st_value := 0, st_unit := ''V'',
         st_frequency := Some 1000 \<rparr> \<rparr>,
     \<lparr> dc_type = ''fluke5522a'', dc_role = ''calibrator'',
       dc_initialState = no_fields \<lparr> st_power := True, st_output := False,
         st_mode := Some ''DC Voltage'', st_value := 1, st_unit := ''V'',
         st_frequency := Some 1000 \<rparr> \<rparr>,
     \<lparr> dc_type = ''multimeter'', dc_role = ''uuc'',
       dc_initialState = no_fields \<lparr> st_power := True, st_mode := Some ''DC V'',
         st_value := 0, st_unit := ''V'' \<rparr> \<rparr>,
     \<lparr> dc_type = ''u3606a'', dc_role = ''uuc'',
       dc_initialState = no_fields \<lparr> st_power := True, st_mode := Some ''DCV'',
         st_value := 0, st_unit := ''V'' \<rparr> \<rparr>,
     \<lparr> dc_type = ''analog_multimeter'', dc_role = ''uuc'',
       dc_initialState = no_fields \<lparr> st_power := True, st_mode := Some ''DCV'',
         st_value := 0, st_unit := ''V'' \<rparr> \<rparr>,
     \<lparr> dc_type = ''clamp_meter'', dc_role = ''uuc'',
       dc_initialState = no_fields \<lparr> st_power := True, st_mode := Some ''AC_AMP'',
         st_value := 0, st_unit := ''A'' \<rparr> \<rparr>,
     \<lparr> dc_type = ''lightsource'', dc_role = ''calibrator'',
       dc_initialState = no_fields \<lparr> st_power := True, st_output := False \<rparr> \<rparr>,
     \<lparr> dc_type = ''oscilloscope'', dc_role = ''uuc'',
       dc_initialState = no_fields \<lparr> st_power := True \<rparr> \<rparr>,
     \<lparr> dc_type = ''oscilloscope-calibrator'', dc_role = ''calibrator'',
       dc_initialState = no_fields \<lparr> st_power := True, st_output := False,
         st_frequency := Some 1000 \<rparr> \<rparr> ]"

text \<open>
  \<open>getInitialState(type)\<close>: the configuration's initial state, or \<open>{ power: false }\<close>
  for an unknown type.
\<close>

definition getInitialState :: "string \<Rightarrow> device_state" where
  "getInitialState t =
     (case find (\<lambda>d. dc_type d = t) DEVICES of
        Some config \<Rightarrow> dc_initialState config
      | None \<Rightarrow> no_fields \<lparr> st_power := False \<rparr>)"

definition getCalibratorTypes :: "string list" where
  "getCalibratorTypes = map dc_type (filter (\<lambda>d. dc_role d = ''calibrator'') DEVICES)"

definition getUUCTypes :: "string list" where
  "getUUCTypes = map dc_type (filter (\<lambda>d. dc_role d = ''uuc'') DEVICES)"

section \<open>The reducer (SimulatorContext.jsx, simulatorReducer)\<close>

text \<open>
  The partial state of \<open>UPDATE_DEVICE_STATE\<close> is a list of field assignments, merged
  into the state from left to right as the object spread does.
\<close>

datatype field_update =
    SetPower bool
  | SetOutput bool
  | SetRfOn bool
  | SetMode "string option"
  | SetValue real
  | SetUnit string
  | SetFrequency "real option"
  | SetLevel real
  | SetComplianceStatus "string option"

fun applyField :: "field_update \<Rightarrow> device_state \<Rightarrow> device_state" where
  "applyField (SetPower b) s = s \<lparr> st_power := b \<rparr>"
| "applyField (SetOutput b) s = s \<lparr> st_output := b \<rparr>"
| "applyField (SetRfOn b) s = s \<lparr> st_rfOn := b \<rparr>"
| "applyField (SetMode m) s = s \<lparr> st_mode := m \<rparr>"
| "applyField (SetValue v) s = s \<lparr> st_value := v \<rparr>"
| "applyField (SetUnit u) s = s \<lparr> st_unit := u \<rparr>"
| "applyField (SetFrequency f) s = s \<lparr> st_frequency := f \<rparr>"
| "applyField (SetLevel l) s = s \<lparr> st_level := l \<rparr>"
| "applyField (SetComplianceStatus c) s = s \<lparr> st_complianceStatus := c \<rparr>"

definition mergeState :: "device_state \<Rightarrow> field_update list \<Rightarrow> device_state" where
  "mergeState s p = fold applyField p s"

datatype error_type = LoadingError | ResolutionUncertainty | InstrumentError

datatype action =
    ADD_COMPONENT string real real
  | REMOVE_COMPONENT int
  | UPDATE_COMPONENT_POSITION int real real
  | UPDATE_DEVICE_STATE int "field_update list"
  | ADD_CONNECTION int int "string option"
  | REMOVE_CONNECTION nat
  | REMOVE_CONNECTIONS_FOR_COMPONENT int
  | SET_CONNECTION_START start_point
  | CLEAR_CONNECTION_START
  | CLEAR_ALL
  | LOAD_PROJECT "component list" "connection list"
  | ADD_ALERT alert_payload
  | DISMISS_ALERT int
  | TOGGLE_UNCERTAINTY_MODE
  | TOGGLE_ERROR_SIMULATION error_type
  | TOGGLE_CONNECTION_WIRE_TYPE nat
  | UNKNOWN_ACTION

text \<open>
  \<open>Math.floor(r * 3)\<close> for a double \<open>r\<close> with \<open>0 \<le> r < 1\<close>, as
  \<open>Math.random()\<close> returns it.  The product of two doubles is the double nearest to the
  real product, a tie going to the double whose significand is even.  The doubles next
  below 1 and below 2 are \<open>1 - 2^-53\<close> and \<open>2 - 2^-52\<close>, and the significands of 1
  and 2 are even: the product is rounded to 1 or more exactly when the real product is
  at least \<open>1 - 2^-54\<close>, and to 2 or more exactly when it is at least \<open>2 - 2^-53\<close>.
  It stays below 3: the greatest \<open>r\<close> is \<open>1 - 2^-53\<close>, whose product is rounded to
  \<open>3 - 2^-51\<close>.
\<close>

definition floorTimes3 :: "real \<Rightarrow> int" where
  "floorTimes3 r =
     (if r * 3 < 1 - 1 / 2 ^ 54 then 0
      else if r * 3 < 2 - 1 / 2 ^ 53 then 1
      else 2)"

text \<open>
  \<open>COMPLIANCE_STATUSES[Math.floor(r * COMPLIANCE_STATUSES.length)]\<close> for a result
  \<open>r\<close> of \<open>Math.random()\<close>; the array has three entries.  For a number outside
  \<open>[0, 1)\<close> the index lies outside the array, which reads \<open>undefined\<close>.
\<close>

definition randomStatus :: "real \<Rightarrow> string option" where
  "randomStatus r =
     (if 0 \<le> r \<and> r < 1
      then (let randomIndex = floorTimes3 r in Some (COMPLIANCE_STATUSES ! nat randomIndex))
      else None)"

text \<open>
  The \<open>map\<close> of \<open>TOGGLE_UNCERTAINTY_MODE\<close>.  \<open>random k\<close> is the result of the
  \<open>k\<close>-th call of \<open>Math.random()\<close> within the dispatch; only a UUC component, and only
  when the mode is being enabled, draws one.
\<close>

fun assignCompliance ::
  "(nat \<Rightarrow> real) \<Rightarrow> nat \<Rightarrow> bool \<Rightarrow> component list \<Rightarrow> component list" where
  "assignCompliance random k newMode [] = []"
| "assignCompliance random k newMode (c # cs) =
     (if cmp_type c \<in> set getUUCTypes \<and> newMode
      then c \<lparr> cmp_state := (cmp_state c) \<lparr> st_complianceStatus := randomStatus (random k) \<rparr> \<rparr>
             # assignCompliance random (Suc k) newMode cs
      else c # assignCompliance random k newMode cs)"

text \<open>\<open>conn.wireProperties?.type === 'standard'\<close>\<close>

definition isStandardWire :: "connection \<Rightarrow> bool" where
  "isStandardWire conn =
     (case c_wireProperties conn of
        None \<Rightarrow> False
      | Some wp \<Rightarrow> wp_type wp = Some ''standard'')"

text \<open>The wire written by \<open>TOGGLE_CONNECTION_WIRE_TYPE\<close> at the chosen index.\<close>

definition toggleWire :: "connection \<Rightarrow> connection" where
  "toggleWire conn =
     (let isStandard = isStandardWire conn
      in conn \<lparr> c_wireProperties :=
           Some \<lparr> wp_type = Some (if isStandard then ''bad'' else ''standard''),
                  wp_resistance = Some (if isStandard then 5.0 else 0.05) \<rparr> \<rparr>)"

text \<open>
  \<open>n + 1\<close> for an integer \<open>n\<close> that a double represents.  Up to \<open>2^53\<close> in
  absolute value every integer is a double and the sum is exact.  Beyond, the doubles are
  multiples of 2 (of 4 from \<open>2^54\<close> on, and so on), and the sum is rounded to the nearest
  of them: it lies midway between \<open>n\<close> and \<open>n + 2\<close> when these are neighbours, and
  the tie goes to the one whose significand is even, which is the multiple of 4;
  otherwise \<open>n\<close> is nearest.
\<close>

definition js_add1 :: "int \<Rightarrow> int" where
  "js_add1 n =
     (if \<bar>n + 1\<bar> \<le> 2 ^ 53 then n + 1
      else if n mod 4 = 2 then n + 2
      else n)"

text \<open>
  \<open>Math.max(...ids, 0)\<close>, which is exact.  (The limit that an engine puts on the
  number of arguments of a call is not modelled.)
\<close>

definition maxId :: "int list \<Rightarrow> int" where
  "maxId ids = fold max ids 0"

fun simulatorReducer :: "(nat \<Rightarrow> real) \<Rightarrow> sim_state \<Rightarrow> action \<Rightarrow> sim_state" where
  "simulatorReducer random state (ADD_COMPONENT deviceType x y) =
     (let newId = componentIdCounter state;
          isUUC = deviceType \<in> set getUUCTypes;
          complianceStatus =
            (if uncertaintyMode state \<and> isUUC then randomStatus (random 0) else None);
          newComponent =
            \<lparr> cmp_id = newId, cmp_type = deviceType, cmp_x = x, cmp_y = y,
              cmp_state = (getInitialState deviceType)
                \<lparr> st_complianceStatus := complianceStatus \<rparr> \<rparr>
      in state \<lparr> components := components state @ [newComponent],
                 componentIdCounter := js_add1 newId \<rparr>)"
| "simulatorReducer random state (REMOVE_COMPONENT i) =
     state \<lparr> components := filter (\<lambda>c. cmp_id c \<noteq> i) (components state),
             connections :=
               filter (\<lambda>conn. c_from conn \<noteq> i \<and> c_to conn \<noteq> i) (connections state) \<rparr>"
| "simulatorReducer random state (UPDATE_COMPONENT_POSITION i x y) =
     state \<lparr> components :=
       map (\<lambda>c. if cmp_id c = i then c \<lparr> cmp_x := x, cmp_y := y \<rparr> else c)
         (components state) \<rparr>"
| "simulatorReducer random state (UPDATE_DEVICE_STATE i p) =
     state \<lparr> components :=
       map (\<lambda>c. if cmp_id c = i then c \<lparr> cmp_state := mergeState (cmp_state c) p \<rparr> else c)
         (components state) \<rparr>"
| "simulatorReducer random state (ADD_CONNECTION f t p) =
     state \<lparr> connections := connections state @
       [\<lparr> c_from = f, c_to = t,
          c_polarity = (case p of None \<Rightarrow> ''hi'' | Some q \<Rightarrow> if q = [] then ''hi'' else q),
          c_wireProperties =
            Some \<lparr> wp_type = Some ''standard'', wp_resistance = Some 0.05 \<rparr> \<rparr>],
       connectionStartPoint := None \<rparr>"
| "simulatorReducer random state (REMOVE_CONNECTION i) =
     state \<lparr> connections :=
       map snd (filter (\<lambda>(index, _). index \<noteq> i) (enumerate 0 (connections state))) \<rparr>"
| "simulatorReducer random state (REMOVE_CONNECTIONS_FOR_COMPONENT i) =
     state \<lparr> connections :=
       filter (\<lambda>conn. c_from conn \<noteq> i \<and> c_to conn \<noteq> i) (connections state) \<rparr>"
| "simulatorReducer random state (SET_CONNECTION_START p) =
     state \<lparr> connectionStartPoint := Some p \<rparr>"
| "simulatorReducer random state CLEAR_CONNECTION_START =
     state \<lparr> connectionStartPoint := None \<rparr>"
| "simulatorReducer random state CLEAR_ALL = initialState"
| "simulatorReducer random state (LOAD_PROJECT comps conns) =
     state \<lparr> components := comps, connections := conns,
             componentIdCounter := js_add1 (maxId (map cmp_id comps)) \<rparr>"
| "simulatorReducer random state (ADD_ALERT payload) =
     (let alertId = alertIdCounter state
      in state \<lparr> alerts := alerts state @ [alert_payload.extend payload \<lparr> al_id = alertId \<rparr>],
                 alertIdCounter := js_add1 alertId \<rparr>)"
| "simulatorReducer random state (DISMISS_ALERT i) =
     state \<lparr> alerts := filter (\<lambda>a. al_id a \<noteq> i) (alerts state) \<rparr>"
| "simulatorReducer random state TOGGLE_UNCERTAINTY_MODE =
     (let newMode = \<not> uncertaintyMode state
      in state \<lparr> uncertaintyMode := newMode,
                 components := assignCompliance random 0 newMode (components state) \<rparr>)"
| "simulatorReducer random state (TOGGLE_ERROR_SIMULATION LoadingError) =
     state \<lparr> errorSimulation := (errorSimulation state)
       \<lparr> loadingError := \<not> loadingError (errorSimulation state) \<rparr> \<rparr>"
| "simulatorReducer random state (TOGGLE_ERROR_SIMULATION ResolutionUncertainty) =
     state \<lparr> errorSimulation := (errorSimulation state)
       \<lparr> resolutionUncertainty := \<not> resolutionUncertainty (errorSimulation state) \<rparr> \<rparr>"
| "simulatorReducer random state (TOGGLE_ERROR_SIMULATION InstrumentError) =
     state \<lparr> errorSimulation := (errorSimulation state)
       \<lparr> instrumentError := \<not> instrumentError (errorSimulation state) \<rparr> \<rparr>"
| "simulatorReducer random state (TOGGLE_CONNECTION_WIRE_TYPE i) =
     state \<lparr> connections :=
       map (\<lambda>(index, conn). if index \<noteq> i then conn else toggleWire conn)
         (enumerate 0 (connections state)) \<rparr>"
| "simulatorReducer random state UNKNOWN_ACTION = state"

section \<open>Connection validation (SimulatorContext.jsx, SimulatorProvider)\<close>

record compatibility =
  valid :: bool
  cmessage :: message

text \<open>\<open>polarity === 'hi' ? 'HI' : 'LO'\<close>\<close>

definition polarityLabel :: "string \<Rightarrow> string" where
  "polarityLabel polarity = (if polarity = ''hi'' then ''HI'' else ''LO'')"

text \<open>
  \<open>checkConnectionCompatibility(fromId, toId, polarity = 'hi')\<close>; an omitted polarity
  is \<open>None\<close>.
\<close>

definition checkConnectionCompatibility ::
  "sim_state \<Rightarrow> int \<Rightarrow> int \<Rightarrow> string option \<Rightarrow> compatibility" where
  "checkConnectionCompatibility state fromId toId pol =
     (let polarity = (case pol of None \<Rightarrow> ''hi'' | Some q \<Rightarrow> q)
      in case (find (\<lambda>c. cmp_id c = fromId) (components state),
               find (\<lambda>c. cmp_id c = toId) (components state)) of
           (Some fromComp, Some toComp) \<Rightarrow>
             (let isFromCalibrator = cmp_type fromComp \<in> set getCalibratorTypes;
                  isToUUC = cmp_type toComp \<in> set getUUCTypes
              in if \<not> isFromCalibrator
                 then \<lparr> valid = False, cmessage = UNSUPPORTED_SOURCE_ROLE \<rparr>
                 else if \<not> isToUUC
                 then \<lparr> valid = False, cmessage = UNSUPPORTED_SINK_ROLE \<rparr>
                 else (case find (\<lambda>c. c_from c = fromId \<and> c_to c = toId \<and> c_polarity c = polarity)
                              (connections state) of
                         Some existingConnection \<Rightarrow>
                           \<lparr> valid = False,
                             cmessage = DUPLICATE_POLARITY (polarityLabel polarity) \<rparr>
                       | None \<Rightarrow> \<lparr> valid = True, cmessage = CONNECT_OK \<rparr>))
         | _ \<Rightarrow> \<lparr> valid = False, cmessage = DEVICE_NOT_FOUND \<rparr>)"

text \<open>
  \<open>addConnection(from, to, polarity = 'hi')\<close>: the verdict, and the store after the
  dispatches the callback makes.
\<close>

definition addConnection ::
  "(nat \<Rightarrow> real) \<Rightarrow> sim_state \<Rightarrow> int \<Rightarrow> int \<Rightarrow> string option
     \<Rightarrow> compatibility \<times> sim_state" where
  "addConnection random state f t pol =
     (let polarity = (case pol of None \<Rightarrow> ''hi'' | Some q \<Rightarrow> q);
          compat = checkConnectionCompatibility state f t (Some polarity)
      in if valid compat
         then (compat,
               simulatorReducer random
                 (simulatorReducer random state (ADD_CONNECTION f t (Some polarity)))
                 (ADD_ALERT \<lparr> al_type = ''success'', al_title = TITLE_OK,
                              al_message = WIRE_CONNECTED (polarityLabel polarity) \<rparr>))
         else (compat,
               simulatorReducer random state
                 (ADD_ALERT \<lparr> al_type = ''error'', al_title = TITLE_FAILED,
                              al_message = cmessage compat \<rparr>)))"

section \<open>Dispatch sequences\<close>

text \<open>
  A sequence of dispatches, each with the results of its calls of \<open>Math.random()\<close>,
  and the ids that its \<open>ADD_COMPONENT\<close> dispatches assign, in order.
\<close>

fun dispatchAll :: "sim_state \<Rightarrow> ((nat \<Rightarrow> real) \<times> action) list \<Rightarrow> sim_state" where
  "dispatchAll state [] = state"
| "dispatchAll state ((random, a) # as) = dispatchAll (simulatorReducer random state a) as"






section \<open>Circuit resolution and measurement\<close>

text \<open>\<open>String.prototype.includes\<close>\<close>

fun str_includes :: "string \<Rightarrow> string \<Rightarrow> bool" where
  "str_includes [] t = (t = [])"
| "str_includes (c # s) t = (prefix t (c # s) \<or> str_includes s t)"

text \<open>The ohm sign and the degree sign of the mode tables, as their UTF-8 bytes.\<close>

definition OHM :: string where
  "OHM = [CHR 0xCE, CHR 0xA9]"

definition DEG_C :: string where
  "DEG_C = [CHR 0xC2, CHR 0xB0, CHR ''C'']"

text \<open>
  What a call yields besides a value: the \<open>TypeError\<close> of a method call on
  \<open>undefined\<close>, and \<open>NonFinite\<close> for a returned value that is no real number
  (\<open>Infinity\<close>, \<open>NaN\<close>).
\<close>

datatype js_outcome = TypeError | NonFinite

text \<open>Division of doubles: by zero the result is not finite.\<close>

definition js_div :: "real \<Rightarrow> real \<Rightarrow> real option" where
  "js_div a b = (if b = 0 then None else Some (a / b))"

text \<open>
  The names of the properties that every object literal inherits from
  \<open>Object.prototype\<close>.  The lookup \<open>obj[key]\<close> in an object literal reads the own
  property of that name, else the inherited one, else \<open>undefined\<close>.  An inherited value
  is a function (for \<open>__proto__\<close>, the prototype object): it is truthy, and it is
  neither a string nor a number.
\<close>

definition inheritedProperties :: "string list" where
  "inheritedProperties =
     [''constructor'', ''__defineGetter__'', ''__defineSetter__'', ''hasOwnProperty'',
      ''__lookupGetter__'', ''__lookupSetter__'', ''isPrototypeOf'', ''propertyIsEnumerable'',
      ''toString'', ''valueOf'', ''__proto__'', ''toLocaleString'']"

datatype 'a js_property = Own 'a | Inherited string | Undefined

definition js_lookup :: "(string \<times> 'a) list \<Rightarrow> string \<Rightarrow> 'a js_property" where
  "js_lookup table key =
     (case map_of table key of
        Some v \<Rightarrow> Own v
      | None \<Rightarrow> if key \<in> set inheritedProperties then Inherited key else Undefined)"

text \<open>
  The value of \<open>mappedMode\<close>, and what \<open>getTolerance\<close> looks up: the name of a mode,
  or the inherited value of the property named.
\<close>

datatype js_mode = ModeName string | InheritedValue string

text \<open>The object returned by \<open>getConnectedValue\<close>.\<close>

record connected_value =
  cv_value :: real
  cv_unit :: string
  cv_mode :: "string option"
  cv_mappedMode :: "js_mode option"
  cv_frequency :: "real option"
  cv_active :: bool
  cv_wireResistance :: "real option"

text \<open>\<open>connections.find(c => c.to === component.id && c.polarity === p)\<close>\<close>

definition findWire :: "connection list \<Rightarrow> int \<Rightarrow> string \<Rightarrow> connection option" where
  "findWire conns i p = find (\<lambda>c. c_to c = i \<and> c_polarity c = p) conns"

text \<open>\<open>a && b && a.from === b.from\<close>\<close>

definition samePair :: "connection option \<Rightarrow> connection option \<Rightarrow> (connection \<times> connection) option" where
  "samePair a b =
     (case (a, b) of
        (Some h, Some l) \<Rightarrow> if c_from h = c_from l then Some (h, l) else None
      | _ \<Rightarrow> None)"

text \<open>
  The first part of \<open>getConnectedValue\<close>, the same text in the multimeter, the
  Fluke 117 and the U3606A: the source id, \<open>isAuxConnection\<close>, and the two wires of the
  complete circuit.
\<close>

definition resolveCircuit ::
  "connection list \<Rightarrow> int \<Rightarrow> (int \<times> bool \<times> connection \<times> connection) option" where
  "resolveCircuit conns i =
     (let hiConn = findWire conns i ''hi'';
          loConn = findWire conns i ''lo'';
          auxHiConn = findWire conns i ''aux_hi'';
          auxLoConn = findWire conns i ''aux_lo''
      in case samePair hiConn loConn of
           Some (h, l) \<Rightarrow> Some (c_from h, False, h, l)
         | None \<Rightarrow>
             (case samePair auxHiConn auxLoConn of
                Some (h, l) \<Rightarrow> Some (c_from h, True, h, l)
              | None \<Rightarrow> None))"

text \<open>\<open>wire?.wireProperties?.resistance\<close>\<close>

definition resistanceField :: "connection \<Rightarrow> real option" where
  "resistanceField w =
     (case c_wireProperties w of
        None \<Rightarrow> None
      | Some wp \<Rightarrow> wp_resistance wp)"

text \<open>\<open>wire?.wireProperties?.resistance || 0.05\<close>\<close>

definition wireR :: "connection \<Rightarrow> real" where
  "wireR w =
     (case resistanceField w of
        None \<Rightarrow> 0.05
      | Some r \<Rightarrow> if r = 0 then 0.05 else r)"

subsection \<open>Multimeter.jsx\<close>

text \<open>The block "Apply loading error physics"; \<open>None\<close> is a value that is not finite.\<close>

definition Multimeter_loading ::
  "bool \<Rightarrow> real \<Rightarrow> device_state \<Rightarrow> js_outcome + real option" where
  "Multimeter_loading loadingErr wireResistance s =
     (if loadingErr \<and> st_output s
      then (case st_mode s of
              None \<Rightarrow> Inl TypeError
            | Some mode \<Rightarrow>
                if str_includes mode ''Voltage''
                then Inr (map_option (\<lambda>q. st_value s * q)
                            (js_div 10000000 (10000000 + wireResistance)))
                else if mode = ''Resistance''
                then Inr (Some (st_value s + wireResistance))
                else if str_includes mode ''Current''
                then (if wireResistance > 1.0
                      then Inr (Some (st_value s * 0.9995))
                      else Inr (Some (st_value s)))
                else Inr (Some (st_value s)))
      else Inr (Some (st_value s)))"

definition Multimeter_modeMapping :: "(string \<times> string) list" where
  "Multimeter_modeMapping =
     [(''DC Voltage'', ''DC V''), (''AC Voltage'', ''AC V''), (''DC Current'', ''DC A''),
      (''AC Current'', ''AC A''), (''Resistance'', OHM), (''Capacitance'', ''F''),
      (''Frequency'', ''Hz''), (''Temperature'', DEG_C)]"

text \<open>
  \<open>modeMapping[source.state.mode] || 'DC V'\<close>; a mode that is \<open>undefined\<close> is looked
  up as the key \<open>undefined\<close>, which names no property.
\<close>

definition mapMode :: "(string \<times> string) list \<Rightarrow> string option \<Rightarrow> js_mode" where
  "mapMode table m =
     (case m of
        None \<Rightarrow> ModeName ''DC V''
      | Some mode \<Rightarrow>
          (case js_lookup table mode of
             Own mapped \<Rightarrow> if mapped = [] then ModeName ''DC V'' else ModeName mapped
           | Inherited p \<Rightarrow> InheritedValue p
           | Undefined \<Rightarrow> ModeName ''DC V''))"

text \<open>\<open>source.state.frequency || 1000\<close>\<close>

definition frequencyOr1000 :: "real option \<Rightarrow> real" where
  "frequencyOr1000 f = (case f of None \<Rightarrow> 1000 | Some v \<Rightarrow> if v = 0 then 1000 else v)"

definition Multimeter_getConnectedValue ::
  "bool \<Rightarrow> connection list \<Rightarrow> component list \<Rightarrow> int
     \<Rightarrow> js_outcome + connected_value option" where
  "Multimeter_getConnectedValue loadingErr conns comps i =
     (case resolveCircuit conns i of
        None \<Rightarrow> Inr None
      | Some (sourceId, isAuxConnection, hiWire, loWire) \<Rightarrow>
          (case find (\<lambda>c. cmp_id c = sourceId) comps of
             None \<Rightarrow> Inr None
           | Some source \<Rightarrow>
               if \<not> st_power (cmp_state source) then Inr None
               else
                 (let wireResistance =
                        (if loadingErr then wireR hiWire + wireR loWire else 0.0)
                  in case Multimeter_loading loadingErr wireResistance (cmp_state source) of
                       Inl e \<Rightarrow> Inl e
                     | Inr measuredValue \<Rightarrow>
                         if (cmp_type source = ''fluke5500a'' \<or> cmp_type source = ''fluke5522a'')
                            \<and> st_output (cmp_state source)
                         then (case measuredValue of
                                 None \<Rightarrow> Inl NonFinite
                               | Some m \<Rightarrow>
                                   Inr (Some
                                     \<lparr> cv_value = m,
                                       cv_unit = (if isAuxConnection then ''A''
                                                  else st_unit (cmp_state source)),
                                       cv_mode = st_mode (cmp_state source),
                                       cv_mappedMode =
                                         Some (mapMode Multimeter_modeMapping
                                                 (st_mode (cmp_state source))),
                                       cv_frequency =
                                         Some (frequencyOr1000 (st_frequency (cmp_state source))),
                                       cv_active = True,
                                       cv_wireResistance = Some wireResistance \<rparr>))
                         else if cmp_type source = ''sma100a'' \<and> st_rfOn (cmp_state source)
                         then Inr (Some
                                \<lparr> cv_value = st_level (cmp_state source), cv_unit = ''dBm'',
                                  cv_mode = None, cv_mappedMode = None, cv_frequency = None,
                                  cv_active = True, cv_wireResistance = None \<rparr>)
                         else Inr None)))"

text \<open>
  "Determine base value"; \<open>None\<close> is \<open>undefined\<close>, read from an object without the
  field.
\<close>

definition Multimeter_baseValue :: "device_state \<Rightarrow> connected_value option \<Rightarrow> real option" where
  "Multimeter_baseValue state connectedValue =
     (case connectedValue of
        None \<Rightarrow> Some (st_value state)
      | Some cv \<Rightarrow>
          if st_mode state = Some ''Hz'' \<and> cv_active cv
          then (if cv_mode cv = Some ''AC Voltage'' \<or> cv_mode cv = Some ''AC Current''
                then cv_frequency cv
                else Some 0)
          else (if cv_active cv then Some (cv_value cv) else Some (st_value state)))"







subsection \<open>Fluke117.jsx\<close>

definition Fluke117_MODE_MAPPING :: "(string \<times> string) list" where
  "Fluke117_MODE_MAPPING =
     [(''DC Voltage'', ''DC V''), (''AC Voltage'', ''AC V''), (''DC Current'', ''DC mA''),
      (''AC Current'', ''AC mA''), (''Resistance'', OHM), (''Frequency'', ''Hz'')]"

definition Fluke117_loading :: "bool \<Rightarrow> real \<Rightarrow> device_state \<Rightarrow> real option" where
  "Fluke117_loading loadingErr wireResistance s =
     (if loadingErr \<and> st_output s
      then (case st_mode s of
              None \<Rightarrow> Some (st_value s)
            | Some mode \<Rightarrow>
                if str_includes mode ''Voltage''
                then map_option (\<lambda>q. st_value s * q)
                       (js_div 10000000 (10000000 + wireResistance))
                else if mode = ''Resistance''
                then Some (st_value s + wireResistance)
                else Some (st_value s))
      else Some (st_value s))"

definition Fluke117_getConnectedValue ::
  "bool \<Rightarrow> connection list \<Rightarrow> component list \<Rightarrow> int
     \<Rightarrow> js_outcome + connected_value option" where
  "Fluke117_getConnectedValue loadingErr conns comps i =
     (case resolveCircuit conns i of
        None \<Rightarrow> Inr None
      | Some (sourceId, isAux, hiW, loW) \<Rightarrow>
          (case find (\<lambda>c. cmp_id c = sourceId) comps of
             None \<Rightarrow> Inr None
           | Some source \<Rightarrow>
               if \<not> st_power (cmp_state source) then Inr None
               else
                 (let wireResistance = (if loadingErr then wireR hiW + wireR loW else 0);
                      measuredValue =
                        Fluke117_loading loadingErr wireResistance (cmp_state source)
                  in if (cmp_type source = ''fluke5500a'' \<or> cmp_type source = ''fluke5522a'')
                        \<and> st_output (cmp_state source)
                     then (case measuredValue of
                             None \<Rightarrow> Inl NonFinite
                           | Some m \<Rightarrow>
                               Inr (Some
                                 \<lparr> cv_value = m,
                                   cv_unit = (if isAux then ''mA''
                                              else st_unit (cmp_state source)),
                                   cv_mode = st_mode (cmp_state source),
                                   cv_mappedMode =
                                     Some (mapMode Fluke117_MODE_MAPPING
                                             (st_mode (cmp_state source))),
                                   cv_frequency =
                                     Some (frequencyOr1000 (st_frequency (cmp_state source))),
                                   cv_active = True,
                                   cv_wireResistance = None \<rparr>))
                     else Inr None)))"

definition Fluke117_baseValue :: "device_state \<Rightarrow> connected_value option \<Rightarrow> real option" where
  "Fluke117_baseValue state connectedValue =
     (case connectedValue of
        None \<Rightarrow> Some (st_value state)
      | Some cv \<Rightarrow>
          if st_mode state = Some ''Hz'' \<and> cv_active cv
          then (if cv_mode cv \<in> Some ` set [''AC Voltage'', ''AC Current'']
                then cv_frequency cv
                else Some 0)
          else (if cv_active cv then Some (cv_value cv) else Some (st_value state)))"



subsection \<open>useUncertaintyMode.js\<close>



subsection \<open>U3606A.jsx\<close>

text \<open>The object \<open>{ value, unit, active }\<close> that the other measuring devices return.\<close>

record reading =
  rd_value :: real
  rd_unit :: string
  rd_active :: bool

text \<open>
  \<open>getConnectedValue\<close> of the U3606A.  The component does not read
  \<open>errorSimulation\<close>, and returns \<open>source.state.value\<close> as it is.
\<close>

definition U3606A_getConnectedValue ::
  "connection list \<Rightarrow> component list \<Rightarrow> int \<Rightarrow> reading option" where
  "U3606A_getConnectedValue conns comps i =
     (case resolveCircuit conns i of
        None \<Rightarrow> None
      | Some (sourceId, isAuxConnection, hiConn, loConn) \<Rightarrow>
          (case find (\<lambda>c. cmp_id c = sourceId) comps of
             None \<Rightarrow> None
           | Some source \<Rightarrow>
               if \<not> st_power (cmp_state source) then None
               else if cmp_type source = ''fluke5500a'' \<and> st_output (cmp_state source)
               then Some \<lparr> rd_value = st_value (cmp_state source),
                           rd_unit = (if isAuxConnection then ''A''
                                      else st_unit (cmp_state source)),
                           rd_active = True \<rparr>
               else if cmp_type source = ''sma100a'' \<and> st_rfOn (cmp_state source)
               then Some \<lparr> rd_value = st_level (cmp_state source), rd_unit = ''dBm'',
                           rd_active = True \<rparr>
               else None))"

text \<open>\<open>connectedValue?.active ? connectedValue.value : state.value\<close>, at every dial position.\<close>

definition U3606A_baseValue :: "device_state \<Rightarrow> reading option \<Rightarrow> real" where
  "U3606A_baseValue state connectedValue =
     (case connectedValue of
        None \<Rightarrow> st_value state
      | Some cv \<Rightarrow> if rd_active cv then rd_value cv else st_value state)"

subsection \<open>ClampMeter.jsx\<close>

text \<open>
  \<open>getConnectedValue\<close> of the clamp meter, for the \<open>type\<close> of the current dial
  position (\<open>clamp\<close> at the positions \<open>AC_AMP\<close>, \<open>DC_AMP\<close> and
  \<open>ACDC_AMP\<close>, \<open>iflex\<close> at \<open>IFLEX\<close>, \<open>probe\<close> at the others, and
  \<open>null\<close> at \<open>OFF\<close>).  A field \<open>value\<close> that is absent is the value 0 of the
  record, as \<open>source.state.value || 0\<close> has it.
\<close>

definition ClampMeter_getConnectedValue ::
  "string option \<Rightarrow> connection list \<Rightarrow> component list \<Rightarrow> int \<Rightarrow> reading option" where
  "ClampMeter_getConnectedValue positionType conns comps i =
     (let clamped =
            (if positionType = Some ''clamp'' \<or> positionType = Some ''iflex''
             then (case findWire conns i ''clamp'' of
                     None \<Rightarrow> None
                   | Some clampConn \<Rightarrow>
                       (case find (\<lambda>c. cmp_id c = c_from clampConn) comps of
                          None \<Rightarrow> None
                        | Some source \<Rightarrow>
                            if st_power (cmp_state source) \<and> st_output (cmp_state source)
                            then Some \<lparr> rd_value = st_value (cmp_state source), rd_unit = ''A'',
                                        rd_active = True \<rparr>
                            else None))
             else None)
      in case clamped of
           Some r \<Rightarrow> Some r
         | None \<Rightarrow>
             (case samePair (findWire conns i ''hi'') (findWire conns i ''lo'') of
                None \<Rightarrow> None
              | Some (hiConn, loConn) \<Rightarrow>
                  (case find (\<lambda>c. cmp_id c = c_from hiConn) comps of
                     None \<Rightarrow> None
                   | Some source \<Rightarrow>
                       if st_power (cmp_state source) \<and> cmp_type source = ''fluke5500a''
                          \<and> st_output (cmp_state source)
                       then Some \<lparr> rd_value = st_value (cmp_state source),
                                   rd_unit = st_unit (cmp_state source), rd_active = True \<rparr>
                       else None)))"

section \<open>Invariant and example inputs\<close>


text \<open>A source of random numbers: every call of \<open>Math.random()\<close> returns 0.5.\<close>

definition exampleRandom :: "nat \<Rightarrow> real" where
  "exampleRandom k = 0.5"

text \<open>A source of random numbers whose first results are 0.9, 0.1 and 0.5.\<close>

definition variedRandom :: "nat \<Rightarrow> real" where
  "variedRandom k = (if k = 0 then 0.9 else if k = 1 then 0.1 else 0.5)"





definition exampleWires :: "connection list" where
  "exampleWires =
     [\<lparr> c_from = 0, c_to = 1, c_polarity = ''hi'',
        c_wireProperties = Some \<lparr> wp_type = Some ''standard'', wp_resistance = Some 0.05 \<rparr> \<rparr>,
      \<lparr> c_from = 0, c_to = 1, c_polarity = ''lo'',
        c_wireProperties = Some \<lparr> wp_type = Some ''standard'', wp_resistance = Some 0.05 \<rparr> \<rparr>]"

definition exampleToggled :: "connection list" where
  "exampleToggled =
     connections (simulatorReducer exampleRandom (initialState \<lparr> connections := exampleWires \<rparr>)
                    (TOGGLE_CONNECTION_WIRE_TYPE 1))"

definition exampleBench :: sim_state where
  "exampleBench =
     dispatchAll initialState
       [(exampleRandom, ADD_COMPONENT ''fluke5500a'' 10 10),
        (exampleRandom, ADD_COMPONENT ''multimeter'' 200 10)]"

text \<open>A calibrator and three measuring devices, placed through the store.\<close>

definition threeMeters :: sim_state where
  "threeMeters =
     dispatchAll initialState
       [(exampleRandom, ADD_COMPONENT ''fluke5500a'' 10 10),
        (exampleRandom, ADD_COMPONENT ''multimeter'' 200 10),
        (exampleRandom, ADD_COMPONENT ''u3606a'' 200 200),
        (exampleRandom, ADD_COMPONENT ''clamp_meter'' 200 400)]"

definition hiWire01 :: connection where
  "hiWire01 =
     \<lparr> c_from = 0, c_to = 1, c_polarity = ''hi'',
       c_wireProperties = Some \<lparr> wp_type = Some ''standard'', wp_resistance = Some 0.05 \<rparr> \<rparr>"

definition sourceOn :: component where
  "sourceOn =
     \<lparr> cmp_id = 0, cmp_type = ''fluke5500a'', cmp_x = 10, cmp_y = 10,
       cmp_state = (getInitialState ''fluke5500a'') \<lparr> st_output := True, st_value := 10 \<rparr> \<rparr>"

definition meter :: component where
  "meter =
     \<lparr> cmp_id = 1, cmp_type = ''multimeter'', cmp_x = 200, cmp_y = 10,
       cmp_state = getInitialState ''multimeter'' \<rparr>"

definition benchComponents :: "component list" where
  "benchComponents = [sourceOn, meter]"

definition benchUnpowered :: "component list" where
  "benchUnpowered =
     [sourceOn \<lparr> cmp_state := (cmp_state sourceOn) \<lparr> st_power := False \<rparr> \<rparr>, meter]"

definition loWire01 :: connection where
  "loWire01 =
     \<lparr> c_from = 0, c_to = 1, c_polarity = ''lo'',
       c_wireProperties = Some \<lparr> wp_type = Some ''standard'', wp_resistance = Some 0.05 \<rparr> \<rparr>"

definition auxHiWire01 :: connection where
  "auxHiWire01 =
     \<lparr> c_from = 0, c_to = 1, c_polarity = ''aux_hi'',
       c_wireProperties = Some \<lparr> wp_type = Some ''standard'', wp_resistance = Some 0.05 \<rparr> \<rparr>"

definition auxLoWire01 :: connection where
  "auxLoWire01 =
     \<lparr> c_from = 0, c_to = 1, c_polarity = ''aux_lo'',
       c_wireProperties = Some \<lparr> wp_type = Some ''standard'', wp_resistance = Some 0.05 \<rparr> \<rparr>"

text \<open>
  A bench built through the store: a source (id 0) and a measuring device (id 1) are
  placed, the source is programmed, and one wire of each of the given polarities is
  connected from the source to the device with \<open>addConnection\<close>.
\<close>

definition wireUp :: "sim_state \<Rightarrow> int \<Rightarrow> int \<Rightarrow> string \<Rightarrow> sim_state" where
  "wireUp state f t polarity = snd (addConnection exampleRandom state f t (Some polarity))"

definition placeDevices :: "string \<Rightarrow> string \<Rightarrow> field_update list \<Rightarrow> sim_state" where
  "placeDevices sourceType meterType programmed =
     dispatchAll initialState
       [(exampleRandom, ADD_COMPONENT sourceType 10 10),
        (exampleRandom, ADD_COMPONENT meterType 200 10),
        (exampleRandom, UPDATE_DEVICE_STATE 0 programmed)]"

definition benchOf :: "string \<Rightarrow> string \<Rightarrow> field_update list \<Rightarrow> string list \<Rightarrow> sim_state" where
  "benchOf sourceType meterType programmed polarities =
     fold (\<lambda>polarity state. wireUp state 0 1 polarity) polarities
       (placeDevices sourceType meterType programmed)"

text \<open>The components and the wires of such a bench.\<close>

definition sourceOf :: "string \<Rightarrow> field_update list \<Rightarrow> component" where
  "sourceOf t programmed =
     \<lparr> cmp_id = 0, cmp_type = t, cmp_x = 10, cmp_y = 10,
       cmp_state = mergeState (getInitialState t) programmed \<rparr>"

definition meterOf :: "string \<Rightarrow> component" where
  "meterOf t =
     \<lparr> cmp_id = 1, cmp_type = t, cmp_x = 200, cmp_y = 10, cmp_state = getInitialState t \<rparr>"

definition wireOf :: "string \<Rightarrow> connection" where
  "wireOf polarity =
     \<lparr> c_from = 0, c_to = 1, c_polarity = polarity,
       c_wireProperties = Some \<lparr> wp_type = Some ''standard'', wp_resistance = Some 0.05 \<rparr> \<rparr>"

text \<open>
  A Fluke 5500A programmed to 10 V DC, output on, wired to a U3606A with two standard
  wires, the loading error enabled.
\<close>

definition u3606aVolts :: sim_state where
  "u3606aVolts =
     simulatorReducer exampleRandom
       (benchOf ''fluke5500a'' ''u3606a'' [SetOutput True, SetValue 10] [''hi'', ''lo''])
       (TOGGLE_ERROR_SIMULATION LoadingError)"

text \<open>
  A Fluke 5500A programmed to 1000 ohms, output on, wired to a U3606A with two wires
  that are toggled to bad wires, the loading error enabled.
\<close>

definition u3606aOhms :: sim_state where
  "u3606aOhms =
     dispatchAll
       (benchOf ''fluke5500a'' ''u3606a''
          [SetOutput True, SetMode (Some ''Resistance''), SetValue 1000, SetUnit OHM]
          [''hi'', ''lo''])
       [(exampleRandom, TOGGLE_CONNECTION_WIRE_TYPE 0),
        (exampleRandom, TOGGLE_CONNECTION_WIRE_TYPE 1),
        (exampleRandom, TOGGLE_ERROR_SIMULATION LoadingError)]"

text \<open>
  A Fluke 5500A programmed to 5 V AC at 60 Hz, output on, wired to a U3606A whose dial
  is at the position \<open>FREQ\<close>, labelled Hz (\<open>rotateDial\<close> writes the position into
  the state).
\<close>

definition u3606aHertz :: sim_state where
  "u3606aHertz =
     simulatorReducer exampleRandom
       (benchOf ''fluke5500a'' ''u3606a''
          [SetOutput True, SetMode (Some ''AC Voltage''), SetValue 5, SetFrequency (Some 60)]
          [''hi'', ''lo''])
       (UPDATE_DEVICE_STATE 1 [SetPower True, SetMode (Some ''FREQ''), SetUnit ''Hz'', SetValue 0])"

text \<open>An RF generator, RF on, wired to the auxiliary terminals of a multimeter.\<close>

definition rfAux :: sim_state where
  "rfAux = benchOf ''sma100a'' ''multimeter'' [SetRfOn True] [''aux_hi'', ''aux_lo'']"

text \<open>A Fluke 5500A programmed to 10 V DC, wired to the auxiliary terminals of a meter.\<close>

definition calibratorAux :: sim_state where
  "calibratorAux =
     benchOf ''fluke5500a'' ''multimeter'' [SetOutput True, SetValue 10] [''aux_hi'', ''aux_lo'']"

text \<open>
  A Fluke 5500A programmed to 2 A DC, output on, and a clamp meter around its one wire.
\<close>

definition clamped :: sim_state where
  "clamped =
     benchOf ''fluke5500a'' ''clamp_meter''
       [SetOutput True, SetMode (Some ''DC Current''), SetValue 2, SetUnit ''A''] [''clamp'']"

definition sourceOhm :: component where
  "sourceOhm =
     \<lparr> cmp_id = 0, cmp_type = ''fluke5500a'', cmp_x = 10, cmp_y = 10,
       cmp_state = (getInitialState ''fluke5500a'')
         \<lparr> st_output := True, st_mode := Some ''Resistance'', st_value := 1000, st_unit := OHM \<rparr> \<rparr>"

definition benchOhm :: "component list" where
  "benchOhm = [sourceOhm, meter]"

definition badHi :: connection where
  "badHi =
     \<lparr> c_from = 0, c_to = 1, c_polarity = ''hi'',
       c_wireProperties = Some \<lparr> wp_type = Some ''bad'', wp_resistance = Some 5.0 \<rparr> \<rparr>"

definition badLo :: connection where
  "badLo =
     \<lparr> c_from = 0, c_to = 1, c_polarity = ''lo'',
       c_wireProperties = Some \<lparr> wp_type = Some ''bad'', wp_resistance = Some 5.0 \<rparr> \<rparr>"

definition sourceAC :: "real option \<Rightarrow> component" where
  "sourceAC f =
     \<lparr> cmp_id = 0, cmp_type = ''fluke5500a'', cmp_x = 10, cmp_y = 10,
       cmp_state = (getInitialState ''fluke5500a'')
         \<lparr> st_output := True, st_mode := Some ''AC Voltage'', st_value := 5, st_frequency := f \<rparr> \<rparr>"

definition meterHz :: component where
  "meterHz =
     \<lparr> cmp_id = 1, cmp_type = ''multimeter'', cmp_x = 200, cmp_y = 10,
       cmp_state = (getInitialState ''multimeter'') \<lparr> st_mode := Some ''Hz'' \<rparr> \<rparr>"

definition meterHz117 :: device_state where
  "meterHz117 = no_fields \<lparr> st_power := True, st_mode := Some ''Hz'', st_unit := ''Hz'' \<rparr>"



section \<open>Properties of the store\<close>

subsection \<open>The id counter\<close>


lemma js_add1_ge: "n \<le> js_add1 n"
  by (simp add: js_add1_def)











subsection \<open>The invariant\<close>





subsection \<open>Ids assigned by the store\<close>






subsection \<open>Toggling a wire\<close>

lemma toggled_connections:
  "connections (simulatorReducer random state (TOGGLE_CONNECTION_WIRE_TYPE i)) =
     map (\<lambda>(index, conn). if index \<noteq> i then conn else toggleWire conn)
       (enumerate 0 (connections state))"
  by simp

text \<open>
  Claim C9.  \<open>TOGGLE_CONNECTION_WIRE_TYPE\<close> for an index \<open>i\<close> keeps the number of
  connections, leaves every connection at another index as it is, and at index \<open>i\<close>
  keeps \<open>from\<close>, \<open>to\<close> and \<open>polarity\<close> and writes new wire properties: type
  \<open>bad\<close> with resistance 5.0 when the wire was \<open>standard\<close>, type \<open>standard\<close> with
  resistance 0.05 otherwise, so that a second toggle flips the kind back.  Nothing of the
  store but the connections changes; an index outside the list changes nothing.
\<close>

theorem toggle_wire_frame:
  fixes state :: sim_state and random :: "nat \<Rightarrow> real" and i :: nat
  defines "cs \<equiv> connections state"
    and "cs' \<equiv> connections (simulatorReducer random state (TOGGLE_CONNECTION_WIRE_TYPE i))"
  shows
  "length cs' = length cs \<and>
   (\<forall>j < length cs. j \<noteq> i \<longrightarrow> cs' ! j = cs ! j) \<and>
   (i < length cs \<longrightarrow>
      c_from (cs' ! i) = c_from (cs ! i) \<and>
      c_to (cs' ! i) = c_to (cs ! i) \<and>
      c_polarity (cs' ! i) = c_polarity (cs ! i) \<and>
      c_wireProperties (cs' ! i) =
        Some (if isStandardWire (cs ! i)
              then \<lparr> wp_type = Some ''bad'', wp_resistance = Some 5.0 \<rparr>
              else \<lparr> wp_type = Some ''standard'', wp_resistance = Some 0.05 \<rparr>) \<and>
      isStandardWire (cs' ! i) = (\<not> isStandardWire (cs ! i))) \<and>
   (simulatorReducer random state (TOGGLE_CONNECTION_WIRE_TYPE i)) \<lparr> connections := cs \<rparr> = state"
proof -
  have nth: "cs' ! j = (if j \<noteq> i then cs ! j else toggleWire (cs ! j))" if "j < length cs" for j
    using that unfolding cs'_def cs_def toggled_connections
    by (simp add: nth_enumerate_eq)
  have len: "length cs' = length cs"
    unfolding cs'_def cs_def toggled_connections by simp
  have tw: "c_from (toggleWire c) = c_from c \<and> c_to (toggleWire c) = c_to c \<and>
            c_polarity (toggleWire c) = c_polarity c \<and>
            c_wireProperties (toggleWire c) =
              Some (if isStandardWire c
                    then \<lparr> wp_type = Some ''bad'', wp_resistance = Some 5.0 \<rparr>
                    else \<lparr> wp_type = Some ''standard'', wp_resistance = Some 0.05 \<rparr>) \<and>
            isStandardWire (toggleWire c) = (\<not> isStandardWire c)" for c
    by (simp add: toggleWire_def Let_def isStandardWire_def)
  show ?thesis
    using len nth tw by (simp add: cs_def)
qed

theorem toggle_wire_frame_witness:
  "exampleToggled ! 0 = exampleWires ! 0 \<and>
   c_from (exampleToggled ! 1) = 0 \<and>
   c_to (exampleToggled ! 1) = 1 \<and>
   c_polarity (exampleToggled ! 1) = ''lo'' \<and>
   c_wireProperties (exampleToggled ! 1) =
     Some \<lparr> wp_type = Some ''bad'', wp_resistance = Some 5 \<rparr>"
proof -
  let ?s = "initialState \<lparr> connections := exampleWires \<rparr>"
  have l: "length (connections ?s) = 2" "(0::nat) < 2" "(0::nat) \<noteq> 1" "(1::nat) < 2"
    by (simp_all add: exampleWires_def)
  have std: "isStandardWire (exampleWires ! 1)"
    by (simp add: exampleWires_def isStandardWire_def)
  have e: "c_from (exampleWires ! 1) = 0" "c_to (exampleWires ! 1) = 1"
    "c_polarity (exampleWires ! 1) = ''lo''"
    by (simp_all add: exampleWires_def)
  from toggle_wire_frame [where state = ?s and i = 1 and random = exampleRandom] l std e
  show ?thesis
    unfolding exampleToggled_def
    by (simp del: simulatorReducer.simps)
qed

subsection \<open>Compliance status\<close>

lemma randomStatus_drawn:
  assumes "0 \<le> r" "r < 1"
  shows "randomStatus r =
           Some (if r * 3 < 1 - 1 / 2 ^ 54 then ''compliance''
                 else if r * 3 < 2 - 1 / 2 ^ 53 then ''non_compliance''
                 else ''out_of_tolerance'')"
  using assms by (simp add: randomStatus_def floorTimes3_def COMPLIANCE_STATUSES_def Let_def)

lemma randomStatus_range:
  assumes "0 \<le> r" "r < 1"
  shows "randomStatus r \<in> Some ` set COMPLIANCE_STATUSES"
  using randomStatus_drawn [OF assms] by (simp add: COMPLIANCE_STATUSES_def)

lemma assignCompliance_length: "length (assignCompliance random k m cs) = length cs"
  by (induction cs arbitrary: k) auto

lemma assignCompliance_nth:
  "j < length cs \<Longrightarrow>
   assignCompliance random k m cs ! j =
     (if cmp_type (cs ! j) \<in> set getUUCTypes \<and> m
      then (cs ! j) \<lparr> cmp_state := (cmp_state (cs ! j))
             \<lparr> st_complianceStatus :=
                 randomStatus (random (k + length (filter (\<lambda>c. cmp_type c \<in> set getUUCTypes)
                                                      (take j cs)))) \<rparr> \<rparr>
      else cs ! j)"
proof (induction cs arbitrary: k j)
  case Nil
  then show ?case by simp
next
  case (Cons c cs)
  show ?case
  proof (cases j)
    case 0
    then show ?thesis by simp
  next
    case (Suc n)
    with Cons.prems have n: "n < length cs" by simp
    show ?thesis
      using Suc Cons.IH [OF n, of "Suc k"] Cons.IH [OF n, of k] by auto
  qed
qed

lemma assignCompliance_off: "assignCompliance random k False cs = cs"
  by (induction cs arbitrary: k) auto

lemma uuc_types_role:
  "t \<in> set getUUCTypes \<longleftrightarrow> (\<exists>d \<in> set DEVICES. dc_type d = t \<and> dc_role d = ''uuc'')"
  unfolding getUUCTypes_def by auto

lemma calibrator_types_role:
  "t \<in> set getCalibratorTypes \<longleftrightarrow>
     (\<exists>d \<in> set DEVICES. dc_type d = t \<and> dc_role d = ''calibrator'')"
  unfolding getCalibratorTypes_def by auto

text \<open>
  Claim C8.  The status drawn for a result \<open>r\<close> of \<open>Math.random()\<close>, a double in
  \<open>[0, 1)\<close>, is the entry of \<open>COMPLIANCE_STATUSES\<close> at the index
  \<open>Math.floor(r * 3)\<close>: \<open>compliance\<close> when the rounded product is below 1,
  \<open>non_compliance\<close> when it is below 2 and \<open>out_of_tolerance\<close> otherwise, so one of
  the three entries, each of which is drawn for some \<open>r\<close>.
  (a) The component that \<open>ADD_COMPONENT\<close> appends has the status drawn for the first
  random number when the global uncertainty mode is on and its type has the role
  \<open>uuc\<close> in the registry; otherwise its status is \<open>null\<close>.
  (b) \<open>TOGGLE_UNCERTAINTY_MODE\<close> from off to on turns the mode on, keeps every
  component that is no UUC as it is, and gives every UUC component, and nothing else of
  it, a status of its own draw (the \<open>k\<close>-th UUC component of the list gets the status
  drawn for the \<open>k\<close>-th random number), again one of the three.
  (c) From on to off it changes the flag only: every component, with its status, and all
  the rest of the store stay as they are.
\<close>

theorem compliance_tagging:
  fixes state :: sim_state and random :: "nat \<Rightarrow> real"
    and t :: string and x y :: real and drawn :: "real \<Rightarrow> string"
  defines "added \<equiv> last (components (simulatorReducer random state (ADD_COMPONENT t x y)))"
    and "toggled \<equiv> simulatorReducer random state TOGGLE_UNCERTAINTY_MODE"
    and "isUUC \<equiv> (\<lambda>ty. \<exists>d \<in> set DEVICES. dc_type d = ty \<and> dc_role d = ''uuc'')"
    and "drawn \<equiv> (\<lambda>r. if r * 3 < 1 - 1 / 2 ^ 54 then ''compliance''
                         else if r * 3 < 2 - 1 / 2 ^ 53 then ''non_compliance''
                         else ''out_of_tolerance'')"
  shows
  "(\<forall>r. 0 \<le> r \<and> r < 1 \<longrightarrow>
      randomStatus r = Some (drawn r) \<and> drawn r \<in> set COMPLIANCE_STATUSES) \<and>
   st_complianceStatus (cmp_state added) =
     (if uncertaintyMode state \<and> isUUC t then randomStatus (random 0) else None) \<and>
   (0 \<le> random 0 \<and> random 0 < 1 \<and> uncertaintyMode state \<and> isUUC t \<longrightarrow>
      st_complianceStatus (cmp_state added) = Some (drawn (random 0)) \<and>
      st_complianceStatus (cmp_state added) \<in> Some ` set COMPLIANCE_STATUSES) \<and>
   (\<not> uncertaintyMode state \<longrightarrow>
      uncertaintyMode toggled \<and>
      length (components toggled) = length (components state) \<and>
      (\<forall>j < length (components state).
         components toggled ! j =
           (if isUUC (cmp_type (components state ! j))
            then (components state ! j) \<lparr> cmp_state := (cmp_state (components state ! j))
                   \<lparr> st_complianceStatus :=
                       randomStatus (random (length (filter (\<lambda>c. isUUC (cmp_type c))
                                                            (take j (components state))))) \<rparr> \<rparr>
            else components state ! j)) \<and>
      ((\<forall>k. 0 \<le> random k \<and> random k < 1) \<longrightarrow>
         (\<forall>c \<in> set (components toggled).
            isUUC (cmp_type c) \<longrightarrow>
            st_complianceStatus (cmp_state c) \<in> Some ` set COMPLIANCE_STATUSES))) \<and>
   (uncertaintyMode state \<longrightarrow> toggled = state \<lparr> uncertaintyMode := False \<rparr>)"
proof -
  have u: "isUUC = (\<lambda>ty. ty \<in> set getUUCTypes)"
    unfolding isUUC_def by (simp add: fun_eq_iff uuc_types_role)
  have dr: "randomStatus r = Some (drawn r)" if "0 \<le> r \<and> r < 1" for r
    unfolding drawn_def using that by (simp add: randomStatus_drawn)
  have dm: "drawn r \<in> set COMPLIANCE_STATUSES" for r
    unfolding drawn_def by (simp add: COMPLIANCE_STATUSES_def)
  have a: "st_complianceStatus (cmp_state added) =
     (if uncertaintyMode state \<and> isUUC t then randomStatus (random 0) else None)"
    unfolding added_def u by (simp add: Let_def)
  have b: "st_complianceStatus (cmp_state added) = Some (drawn (random 0)) \<and>
      st_complianceStatus (cmp_state added) \<in> Some ` set COMPLIANCE_STATUSES"
    if "0 \<le> random 0 \<and> random 0 < 1 \<and> uncertaintyMode state \<and> isUUC t"
    using that a dr [of "random 0"] dm [of "random 0"] by simp
  have comps: "components toggled =
      assignCompliance random 0 (\<not> uncertaintyMode state) (components state)"
    and mode: "uncertaintyMode toggled = (\<not> uncertaintyMode state)"
    unfolding toggled_def by (simp_all add: Let_def)
  have c1: "length (components toggled) = length (components state)"
    by (simp add: comps assignCompliance_length)
  have c2: "components toggled ! j =
           (if isUUC (cmp_type (components state ! j))
            then (components state ! j) \<lparr> cmp_state := (cmp_state (components state ! j))
                   \<lparr> st_complianceStatus :=
                       randomStatus (random (length (filter (\<lambda>c. isUUC (cmp_type c))
                                                            (take j (components state))))) \<rparr> \<rparr>
            else components state ! j)"
    if "\<not> uncertaintyMode state" "j < length (components state)" for j
    using that by (simp add: comps assignCompliance_nth u)
  have c3: "st_complianceStatus (cmp_state c) \<in> Some ` set COMPLIANCE_STATUSES"
    if off: "\<not> uncertaintyMode state" and r: "\<forall>k. 0 \<le> random k \<and> random k < 1"
      and c: "c \<in> set (components toggled)" and uc: "isUUC (cmp_type c)" for c
  proof -
    from c obtain j where j: "j < length (components toggled)" "c = components toggled ! j"
      by (auto simp: in_set_conv_nth)
    with c1 have j': "j < length (components state)" by simp
    show ?thesis
    proof (cases "isUUC (cmp_type (components state ! j))")
      case True
      with c2 [OF off j'] j r show ?thesis
        by (simp add: randomStatus_range)
    next
      case False
      with c2 [OF off j'] j uc show ?thesis by simp
    qed
  qed
  have d: "toggled = state \<lparr> uncertaintyMode := False \<rparr>" if "uncertaintyMode state"
    unfolding toggled_def using that by (simp add: Let_def assignCompliance_off)
  from dr dm a b mode c1 c2 c3 d show ?thesis by blast
qed

theorem compliance_tagging_witness:
  "randomStatus (1 / 10) = Some ''compliance'' \<and>
   randomStatus (1 / 2) = Some ''non_compliance'' \<and>
   randomStatus (9 / 10) = Some ''out_of_tolerance'' \<and>
   randomStatus (6004799503160661 / 2 ^ 53) = Some ''out_of_tolerance'' \<and>
   st_complianceStatus (cmp_state (last (components
      (simulatorReducer variedRandom (initialState \<lparr> uncertaintyMode := True \<rparr>)
         (ADD_COMPONENT ''multimeter'' 0 0))))) = Some ''out_of_tolerance'' \<and>
   st_complianceStatus (cmp_state (last (components
      (simulatorReducer exampleRandom (initialState \<lparr> uncertaintyMode := True \<rparr>)
         (ADD_COMPONENT ''multimeter'' 0 0))))) = Some ''non_compliance'' \<and>
   st_complianceStatus (cmp_state (last (components
      (simulatorReducer variedRandom (initialState \<lparr> uncertaintyMode := True \<rparr>)
         (ADD_COMPONENT ''fluke5500a'' 0 0))))) = None \<and>
   uncertaintyMode (simulatorReducer variedRandom threeMeters TOGGLE_UNCERTAINTY_MODE) \<and>
   components (simulatorReducer variedRandom threeMeters TOGGLE_UNCERTAINTY_MODE) ! 0 =
     components threeMeters ! 0 \<and>
   map (\<lambda>c. st_complianceStatus (cmp_state c))
     (components (simulatorReducer variedRandom threeMeters TOGGLE_UNCERTAINTY_MODE)) =
     [None, Some ''out_of_tolerance'', Some ''compliance'', Some ''non_compliance''] \<and>
   st_complianceStatus (cmp_state
     (components (simulatorReducer variedRandom threeMeters TOGGLE_UNCERTAINTY_MODE) ! 3))
     \<in> Some ` set COMPLIANCE_STATUSES \<and>
   simulatorReducer variedRandom (threeMeters \<lparr> uncertaintyMode := True \<rparr>)
     TOGGLE_UNCERTAINTY_MODE = threeMeters"
proof -
  let ?on = "initialState \<lparr> uncertaintyMode := True \<rparr>"
  let ?t = "simulatorReducer variedRandom threeMeters TOGGLE_UNCERTAINTY_MODE"
  let ?isUUC = "\<lambda>ty. \<exists>d \<in> set DEVICES. dc_type d = ty \<and> dc_role d = ''uuc''"
  have v: "variedRandom 0 = 9 / 10" "variedRandom 1 = 1 / 10" "variedRandom 2 = 1 / 2"
    "exampleRandom 0 = 1 / 2"
    by (simp_all add: variedRandom_def exampleRandom_def)
  have rng: "(0::real) \<le> 1 / 10 \<and> (1::real) / 10 < 1" "(0::real) \<le> 1 / 2 \<and> (1::real) / 2 < 1"
    "(0::real) \<le> 9 / 10 \<and> (9::real) / 10 < 1"
    "(0::real) \<le> 6004799503160661 / 2 ^ 53 \<and> (6004799503160661::real) / 2 ^ 53 < 1"
    by simp_all
  have uuc: "?isUUC ''multimeter''" "?isUUC ''u3606a''" "?isUUC ''clamp_meter''"
    "\<not> ?isUUC ''fluke5500a''"
    by (simp_all add: DEVICES_def)
  have um: "uncertaintyMode ?on" by simp
  note a = compliance_tagging [where state = ?on and random = variedRandom
      and t = "''multimeter''" and x = 0 and y = 0]
  note a' = compliance_tagging [where state = ?on and random = exampleRandom
      and t = "''multimeter''" and x = 0 and y = 0]
  note a'' = compliance_tagging [where state = ?on and random = variedRandom
      and t = "''fluke5500a''" and x = 0 and y = 0]
  note b = compliance_tagging [where state = threeMeters and random = variedRandom]
  note c = compliance_tagging [where state = "threeMeters \<lparr> uncertaintyMode := True \<rparr>"
      and random = variedRandom]
  note draw = a [THEN conjunct1, rule_format, THEN conjunct1]
  have r1: "randomStatus (1 / 10) = Some ''compliance''"
    using draw [OF rng(1)] by simp
  have r2: "randomStatus (1 / 2) = Some ''non_compliance''"
    using draw [OF rng(2)] by simp
  have r3: "randomStatus (9 / 10) = Some ''out_of_tolerance''"
    using draw [OF rng(3)] by simp
  have r4: "randomStatus (6004799503160661 / 2 ^ 53) = Some ''out_of_tolerance''"
    using draw [OF rng(4)] by simp
  from a [THEN conjunct2, THEN conjunct1] um uuc(1) r3 v(1)
  have 1: "st_complianceStatus (cmp_state (last (components
      (simulatorReducer variedRandom ?on (ADD_COMPONENT ''multimeter'' 0 0))))) =
      Some ''out_of_tolerance''"
    by (simp del: simulatorReducer.simps)
  from a' [THEN conjunct2, THEN conjunct1] um uuc(1) r2 v(4)
  have 2: "st_complianceStatus (cmp_state (last (components
      (simulatorReducer exampleRandom ?on (ADD_COMPONENT ''multimeter'' 0 0))))) =
      Some ''non_compliance''"
    by (simp del: simulatorReducer.simps)
  from a'' [THEN conjunct2, THEN conjunct1] uuc(4)
  have 3: "st_complianceStatus (cmp_state (last (components
      (simulatorReducer variedRandom ?on (ADD_COMPONENT ''fluke5500a'' 0 0))))) = None"
    by (simp del: simulatorReducer.simps)
  have bench: "length (components threeMeters) = 4"
    "map cmp_type (components threeMeters) =
       [''fluke5500a'', ''multimeter'', ''u3606a'', ''clamp_meter'']"
    "map (\<lambda>c. st_complianceStatus (cmp_state c)) (components threeMeters) =
       [None, None, None, None]"
    "\<not> uncertaintyMode threeMeters"
    by (simp_all add: threeMeters_def initialState_def Let_def js_add1_def
        getInitialState_def DEVICES_def no_fields_def getUUCTypes_def)
  have off: "threeMeters \<lparr> uncertaintyMode := False \<rparr> = threeMeters"
    using bench(4) by simp
  have ty: "cmp_type (components threeMeters ! 0) = ''fluke5500a''"
    "cmp_type (components threeMeters ! 1) = ''multimeter''"
    "cmp_type (components threeMeters ! 2) = ''u3606a''"
    "cmp_type (components threeMeters ! 3) = ''clamp_meter''"
    using bench(1,2) by (simp_all add: list_eq_iff_nth_eq)
  have cnt: "length (filter (\<lambda>c. ?isUUC (cmp_type c)) (take 1 (components threeMeters))) = 0"
    "length (filter (\<lambda>c. ?isUUC (cmp_type c)) (take 2 (components threeMeters))) = 1"
    "length (filter (\<lambda>c. ?isUUC (cmp_type c)) (take 3 (components threeMeters))) = 2"
    by (simp_all add: threeMeters_def initialState_def Let_def js_add1_def DEVICES_def)
  from b bench(4) have 4: "uncertaintyMode ?t" and len: "length (components ?t) = 4"
    by (simp_all add: bench(1) del: simulatorReducer.simps)
  from b bench(4) have nth: "\<forall>j < length (components threeMeters). components ?t ! j =
           (if ?isUUC (cmp_type (components threeMeters ! j))
            then (components threeMeters ! j) \<lparr> cmp_state := (cmp_state (components threeMeters ! j))
                   \<lparr> st_complianceStatus :=
                       randomStatus (variedRandom (length (filter
                          (\<lambda>c. ?isUUC (cmp_type c))
                          (take j (components threeMeters))))) \<rparr> \<rparr>
            else components threeMeters ! j)"
    by blast
  from nth [rule_format, of 0, unfolded bench(1) ty(1)] uuc(4)
  have 5: "components ?t ! 0 = components threeMeters ! 0"
    by (simp del: simulatorReducer.simps)
  from nth [rule_format, of 1, unfolded bench(1) ty(2) cnt(1) v(1) r3] uuc(1)
  have s1: "st_complianceStatus (cmp_state (components ?t ! 1)) = Some ''out_of_tolerance''"
    by (simp del: simulatorReducer.simps)
  from nth [rule_format, of 2, unfolded bench(1) ty(3) cnt(2) v(2) r1] uuc(2)
  have s2: "st_complianceStatus (cmp_state (components ?t ! 2)) = Some ''compliance''"
    by (simp del: simulatorReducer.simps)
  from nth [rule_format, of 3, unfolded bench(1) ty(4) cnt(3) v(3) r2] uuc(3)
  have s3: "st_complianceStatus (cmp_state (components ?t ! 3)) = Some ''non_compliance''"
    by (simp del: simulatorReducer.simps)
  have s0: "st_complianceStatus (cmp_state (components ?t ! 0)) = None"
    unfolding 5 using bench(1,3) by (simp add: list_eq_iff_nth_eq)
  have 6: "map (\<lambda>c. st_complianceStatus (cmp_state c)) (components ?t) =
     [None, Some ''out_of_tolerance'', Some ''compliance'', Some ''non_compliance'']"
    using len s0 s1 s2 s3
    by (simp add: list_eq_iff_nth_eq less_Suc_eq numeral_eq_Suc del: simulatorReducer.simps)
  from c off have 7: "simulatorReducer variedRandom (threeMeters \<lparr> uncertaintyMode := True \<rparr>)
     TOGGLE_UNCERTAINTY_MODE = threeMeters"
    by (simp del: simulatorReducer.simps)
  have all: "\<forall>k. 0 \<le> variedRandom k \<and> variedRandom k < 1"
    by (simp add: variedRandom_def)
  have mem: "components ?t ! 3 \<in> set (components ?t)"
    using len by simp
  have u3: "?isUUC (cmp_type (components ?t ! 3))"
    using nth [rule_format, of 3, unfolded bench(1) ty(4)] uuc(3)
    by (simp add: ty(4) del: simulatorReducer.simps)
  note inset = b [THEN conjunct2, THEN conjunct2, THEN conjunct2, THEN conjunct1, rule_format,
      OF bench(4), THEN conjunct2, THEN conjunct2, THEN conjunct2, rule_format,
      OF all [rule_format] mem u3]
  from r1 r2 r3 r4 1 2 3 4 5 6 7 inset show ?thesis by blast
qed

subsection \<open>Validation of a wire\<close>

lemma find_id_None:
  "find (\<lambda>c. cmp_id c = i) comps = None \<longleftrightarrow> \<not> (\<exists>c \<in> set comps. cmp_id c = i)"
  by (auto simp: find_None_iff)

lemma addConnection_verdict:
  "fst (addConnection random state f t pol) = checkConnectionCompatibility state f t pol"
  by (cases pol) (simp_all add: addConnection_def Let_def checkConnectionCompatibility_def)

text \<open>
  Claim C3.  \<open>checkConnectionCompatibility\<close> applies four rules in this order.
  (1) When the \<open>from\<close> id or the \<open>to\<close> id is the id of no component, the verdict is
  the failure \<open>DEVICE_NOT_FOUND\<close>.  Otherwise, for the two components found:
  (2) when the registry does not give the \<open>from\<close> component's type the role
  \<open>calibrator\<close>, it is \<open>UNSUPPORTED_SOURCE_ROLE\<close>; (3) else, when it does not give the
  \<open>to\<close> component's type the role \<open>uuc\<close>, it is \<open>UNSUPPORTED_SINK_ROLE\<close>;
  (4) else, when a connection with the same \<open>from\<close>, \<open>to\<close> and polarity exists, it is
  \<open>DUPLICATE_POLARITY\<close>; else the wire is accepted.  \<open>addConnection\<close> returns that
  verdict; on a failure it leaves the connections (and the components) of the store as
  they are, and on success it appends the one new standard wire.
\<close>

theorem validation_rules:
  fixes state :: sim_state and f t :: int and pol :: "string option" and polarity :: string
  defines "polarity \<equiv> (case pol of None \<Rightarrow> ''hi'' | Some q \<Rightarrow> q)"
    and "verdict \<equiv> checkConnectionCompatibility state f t pol"
    and "fromComp \<equiv> find (\<lambda>c. cmp_id c = f) (components state)"
    and "toComp \<equiv> find (\<lambda>c. cmp_id c = t) (components state)"
    and "roleIs \<equiv> (\<lambda>role comp. \<exists>d \<in> set DEVICES. dc_type d = cmp_type comp \<and> dc_role d = role)"
    and "duplicate \<equiv> (\<exists>c \<in> set (connections state).
                         c_from c = f \<and> c_to c = t \<and> c_polarity c = polarity)"
  shows
  "(fromComp = None \<or> toComp = None \<longrightarrow>
      verdict = \<lparr> valid = False, cmessage = DEVICE_NOT_FOUND \<rparr>) \<and>
   (\<forall>fc tc. fromComp = Some fc \<and> toComp = Some tc \<longrightarrow>
      (\<not> roleIs ''calibrator'' fc \<longrightarrow>
         verdict = \<lparr> valid = False, cmessage = UNSUPPORTED_SOURCE_ROLE \<rparr>) \<and>
      (roleIs ''calibrator'' fc \<and> \<not> roleIs ''uuc'' tc \<longrightarrow>
         verdict = \<lparr> valid = False, cmessage = UNSUPPORTED_SINK_ROLE \<rparr>) \<and>
      (roleIs ''calibrator'' fc \<and> roleIs ''uuc'' tc \<and> duplicate \<longrightarrow>
         verdict = \<lparr> valid = False, cmessage = DUPLICATE_POLARITY (polarityLabel polarity) \<rparr>) \<and>
      (roleIs ''calibrator'' fc \<and> roleIs ''uuc'' tc \<and> \<not> duplicate \<longrightarrow>
         verdict = \<lparr> valid = True, cmessage = CONNECT_OK \<rparr>)) \<and>
   (fromComp = None \<longleftrightarrow> \<not> (\<exists>c \<in> set (components state). cmp_id c = f)) \<and>
   (toComp = None \<longleftrightarrow> \<not> (\<exists>c \<in> set (components state). cmp_id c = t)) \<and>
   fst (addConnection random state f t pol) = verdict \<and>
   (\<not> valid verdict \<longrightarrow>
      connections (snd (addConnection random state f t pol)) = connections state \<and>
      components (snd (addConnection random state f t pol)) = components state) \<and>
   (valid verdict \<longrightarrow>
      connections (snd (addConnection random state f t pol)) =
        connections state @
          [\<lparr> c_from = f, c_to = t,
             c_polarity = (if polarity = [] then ''hi'' else polarity),
             c_wireProperties =
               Some \<lparr> wp_type = Some ''standard'', wp_resistance = Some 0.05 \<rparr> \<rparr>])"
proof -
  have roles: "roleIs ''calibrator'' c = (cmp_type c \<in> set getCalibratorTypes)"
    "roleIs ''uuc'' c = (cmp_type c \<in> set getUUCTypes)" for c
    unfolding roleIs_def by (simp_all add: calibrator_types_role uuc_types_role)
  have dup: "duplicate \<longleftrightarrow>
     find (\<lambda>c. c_from c = f \<and> c_to c = t \<and> c_polarity c = polarity) (connections state) \<noteq> None"
    unfolding duplicate_def by (auto simp: find_None_iff)
  have v: "verdict =
     (case (fromComp, toComp) of
           (Some fc, Some tc) \<Rightarrow>
                 if \<not> roleIs ''calibrator'' fc
                 then \<lparr> valid = False, cmessage = UNSUPPORTED_SOURCE_ROLE \<rparr>
                 else if \<not> roleIs ''uuc'' tc
                 then \<lparr> valid = False, cmessage = UNSUPPORTED_SINK_ROLE \<rparr>
                 else if duplicate
                 then \<lparr> valid = False, cmessage = DUPLICATE_POLARITY (polarityLabel polarity) \<rparr>
                 else \<lparr> valid = True, cmessage = CONNECT_OK \<rparr>
         | _ \<Rightarrow> \<lparr> valid = False, cmessage = DEVICE_NOT_FOUND \<rparr>)"
    unfolding verdict_def checkConnectionCompatibility_def fromComp_def toComp_def
      polarity_def roles dup
    by (auto simp: Let_def split: option.splits)
  have 1: "fromComp = None \<or> toComp = None \<Longrightarrow>
      verdict = \<lparr> valid = False, cmessage = DEVICE_NOT_FOUND \<rparr>"
    unfolding v by (auto split: option.splits)
  have 2: "fromComp = Some fc \<and> toComp = Some tc \<Longrightarrow>
      (\<not> roleIs ''calibrator'' fc \<longrightarrow>
         verdict = \<lparr> valid = False, cmessage = UNSUPPORTED_SOURCE_ROLE \<rparr>) \<and>
      (roleIs ''calibrator'' fc \<and> \<not> roleIs ''uuc'' tc \<longrightarrow>
         verdict = \<lparr> valid = False, cmessage = UNSUPPORTED_SINK_ROLE \<rparr>) \<and>
      (roleIs ''calibrator'' fc \<and> roleIs ''uuc'' tc \<and> duplicate \<longrightarrow>
         verdict = \<lparr> valid = False, cmessage = DUPLICATE_POLARITY (polarityLabel polarity) \<rparr>) \<and>
      (roleIs ''calibrator'' fc \<and> roleIs ''uuc'' tc \<and> \<not> duplicate \<longrightarrow>
         verdict = \<lparr> valid = True, cmessage = CONNECT_OK \<rparr>)" for fc tc
    unfolding v by simp
  have 3: "(fromComp = None \<longleftrightarrow> \<not> (\<exists>c \<in> set (components state). cmp_id c = f))"
    "(toComp = None \<longleftrightarrow> \<not> (\<exists>c \<in> set (components state). cmp_id c = t))"
    unfolding fromComp_def toComp_def by (simp_all add: find_id_None)
  have 4: "fst (addConnection random state f t pol) = verdict"
    unfolding verdict_def by (rule addConnection_verdict)
  have same: "checkConnectionCompatibility state f t (Some polarity) = verdict"
    unfolding verdict_def polarity_def
    by (cases pol) (simp_all add: checkConnectionCompatibility_def)
  have 5: "\<not> valid verdict \<Longrightarrow>
      connections (snd (addConnection random state f t pol)) = connections state \<and>
      components (snd (addConnection random state f t pol)) = components state"
    using same unfolding addConnection_def polarity_def by (simp add: Let_def)
  have 6: "valid verdict \<Longrightarrow>
      connections (snd (addConnection random state f t pol)) =
        connections state @
          [\<lparr> c_from = f, c_to = t,
             c_polarity = (if polarity = [] then ''hi'' else polarity),
             c_wireProperties =
               Some \<lparr> wp_type = Some ''standard'', wp_resistance = Some 0.05 \<rparr> \<rparr>]"
    using same unfolding addConnection_def polarity_def by (simp add: Let_def)
  from 1 2 3 4 5 6 show ?thesis by blast
qed

theorem validation_rules_witness:
  "addConnection exampleRandom exampleBench 0 1 (Some ''hi'') =
     (\<lparr> valid = True, cmessage = CONNECT_OK \<rparr>,
      snd (addConnection exampleRandom exampleBench 0 1 (Some ''hi''))) \<and>
   connections (snd (addConnection exampleRandom exampleBench 0 1 (Some ''hi''))) = [hiWire01] \<and>
   checkConnectionCompatibility exampleBench 0 5 (Some ''hi'') =
     \<lparr> valid = False, cmessage = DEVICE_NOT_FOUND \<rparr> \<and>
   checkConnectionCompatibility exampleBench 1 0 (Some ''hi'') =
     \<lparr> valid = False, cmessage = UNSUPPORTED_SOURCE_ROLE \<rparr> \<and>
   checkConnectionCompatibility exampleBench 0 0 (Some ''hi'') =
     \<lparr> valid = False, cmessage = UNSUPPORTED_SINK_ROLE \<rparr> \<and>
   checkConnectionCompatibility (exampleBench \<lparr> connections := [hiWire01] \<rparr>) 0 1 (Some ''hi'') =
     \<lparr> valid = False, cmessage = DUPLICATE_POLARITY ''HI'' \<rparr> \<and>
   connections (snd (addConnection exampleRandom (exampleBench \<lparr> connections := [hiWire01] \<rparr>)
                       0 1 (Some ''hi''))) = [hiWire01]"
proof -
  let ?c0 = "components exampleBench ! 0" and ?c1 = "components exampleBench ! 1"
  let ?wired = "exampleBench \<lparr> connections := [hiWire01] \<rparr>"
  have f: "find (\<lambda>c. cmp_id c = 0) (components exampleBench) = Some ?c0"
    "find (\<lambda>c. cmp_id c = 1) (components exampleBench) = Some ?c1"
    "find (\<lambda>c. cmp_id c = 5) (components exampleBench) = None"
    by (simp_all add: exampleBench_def initialState_def Let_def js_add1_def)
  have ty: "cmp_type ?c0 = ''fluke5500a''" "cmp_type ?c1 = ''multimeter''"
    by (simp_all add: exampleBench_def initialState_def Let_def)
  have r: "\<exists>d \<in> set DEVICES. dc_type d = cmp_type ?c0 \<and> dc_role d = ''calibrator''"
    "\<exists>d \<in> set DEVICES. dc_type d = cmp_type ?c1 \<and> dc_role d = ''uuc''"
    "\<not> (\<exists>d \<in> set DEVICES. dc_type d = cmp_type ?c1 \<and> dc_role d = ''calibrator'')"
    "\<not> (\<exists>d \<in> set DEVICES. dc_type d = cmp_type ?c0 \<and> dc_role d = ''uuc'')"
    unfolding ty by (simp_all add: DEVICES_def)
  have none: "\<not> (\<exists>c \<in> set (connections exampleBench).
                  c_from c = 0 \<and> c_to c = 1 \<and> c_polarity c = ''hi'')"
    by (simp add: exampleBench_def initialState_def Let_def)
  have dup: "\<exists>c \<in> set (connections ?wired).
                  c_from c = 0 \<and> c_to c = 1 \<and> c_polarity c = ''hi''"
    by (simp add: hiWire01_def)
  have conns: "connections exampleBench = []" "components ?wired = components exampleBench"
    by (simp_all add: exampleBench_def initialState_def Let_def)
  have lab: "polarityLabel ''hi'' = ''HI''" by (simp add: polarityLabel_def)
  have pol: "(case Some ''hi'' of None \<Rightarrow> ''hi'' | Some q \<Rightarrow> q) = ''hi''" by simp
  note ok = validation_rules [where state = exampleBench and f = 0 and t = 1
      and pol = "Some ''hi''" and random = exampleRandom, unfolded pol]
  note nf = validation_rules [where state = exampleBench and f = 0 and t = 5
      and pol = "Some ''hi''" and random = exampleRandom, unfolded pol]
  note src = validation_rules [where state = exampleBench and f = 1 and t = 0
      and pol = "Some ''hi''" and random = exampleRandom, unfolded pol]
  note snk = validation_rules [where state = exampleBench and f = 0 and t = 0
      and pol = "Some ''hi''" and random = exampleRandom, unfolded pol]
  note dp = validation_rules [where state = ?wired and f = 0 and t = 1
      and pol = "Some ''hi''" and random = exampleRandom, unfolded pol]
  note ok2 = ok [THEN conjunct2, THEN conjunct1, rule_format, of ?c0 ?c1]
  have v1: "checkConnectionCompatibility exampleBench 0 1 (Some ''hi'') =
     \<lparr> valid = True, cmessage = CONNECT_OK \<rparr>"
    using ok2 f(1,2) r(1,2) none by (simp only: simp_thms)
  have 1: "fst (addConnection exampleRandom exampleBench 0 1 (Some ''hi'')) =
     \<lparr> valid = True, cmessage = CONNECT_OK \<rparr>"
    using ok [THEN conjunct2, THEN conjunct2, THEN conjunct2, THEN conjunct2, THEN conjunct1] v1
    by (simp only:)
  have 2:
    "connections (snd (addConnection exampleRandom exampleBench 0 1 (Some ''hi''))) = [hiWire01]"
    using ok [THEN conjunct2, THEN conjunct2, THEN conjunct2, THEN conjunct2, THEN conjunct2,
        THEN conjunct2] v1 conns(1)
    by (simp add: hiWire01_def del: simulatorReducer.simps)
  have 3: "checkConnectionCompatibility exampleBench 0 5 (Some ''hi'') =
     \<lparr> valid = False, cmessage = DEVICE_NOT_FOUND \<rparr>"
    using nf [THEN conjunct1] f(3) by (simp only: simp_thms)
  have 4: "checkConnectionCompatibility exampleBench 1 0 (Some ''hi'') =
     \<lparr> valid = False, cmessage = UNSUPPORTED_SOURCE_ROLE \<rparr>"
    using src [THEN conjunct2, THEN conjunct1, rule_format, of ?c1 ?c0] f(1,2) r(3)
    by (simp only: simp_thms)
  have 5: "checkConnectionCompatibility exampleBench 0 0 (Some ''hi'') =
     \<lparr> valid = False, cmessage = UNSUPPORTED_SINK_ROLE \<rparr>"
    using snk [THEN conjunct2, THEN conjunct1, rule_format, of ?c0 ?c0] f(1) r(1,4)
    by (simp only: simp_thms)
  have 6: "checkConnectionCompatibility ?wired 0 1 (Some ''hi'') =
     \<lparr> valid = False, cmessage = DUPLICATE_POLARITY ''HI'' \<rparr>"
    using dp [THEN conjunct2, THEN conjunct1, rule_format, of ?c0 ?c1] f(1,2) r(1,2) dup
    unfolding conns(2) lab
    by (simp only: simp_thms)
  have 7: "connections (snd (addConnection exampleRandom ?wired 0 1 (Some ''hi'')))
     = [hiWire01]"
    using dp [THEN conjunct2, THEN conjunct2, THEN conjunct2, THEN conjunct2, THEN conjunct2,
        THEN conjunct1] 6
    by (simp del: simulatorReducer.simps)
  from 1 2 3 4 5 6 7 show ?thesis by (simp add: prod_eq_iff)
qed

section \<open>Properties of the measuring devices\<close>

subsection \<open>Unfolding the definitions on the examples\<close>

lemmas bench_defs =
  benchComponents_def benchUnpowered_def sourceOn_def meter_def hiWire01_def loWire01_def
  auxHiWire01_def auxLoWire01_def getInitialState_def DEVICES_def no_fields_def

lemmas measure_defs =
  Multimeter_getConnectedValue_def Fluke117_getConnectedValue_def resolveCircuit_def
  findWire_def samePair_def wireR_def resistanceField_def Multimeter_loading_def
  Fluke117_loading_def js_div_def mapMode_def js_lookup_def inheritedProperties_def
  Multimeter_modeMapping_def Fluke117_MODE_MAPPING_def frequencyOr1000_def

lemmas ohm_example_defs =
  sourceOhm_def benchOhm_def badHi_def badLo_def OHM_def

lemmas hz_example_defs = sourceAC_def meterHz_def meterHz117_def

lemmas example_defs = sourceOf_def meterOf_def wireOf_def

lemmas device_defs =
  example_defs getInitialState_def DEVICES_def no_fields_def mergeState_def

subsection \<open>The benches built through the store\<close>

lemma getInitialState_status:
  "(getInitialState t) \<lparr> st_complianceStatus := None \<rparr> = getInitialState t"
  by (simp add: getInitialState_def DEVICES_def no_fields_def)

lemma placeDevices_store:
  "components (placeDevices s m p) = [sourceOf s p, meterOf m]"
  "connections (placeDevices s m p) = []"
  "errorSimulation (placeDevices s m p) = errorSimulation initialState"
  by (simp_all add: placeDevices_def initialState_def Let_def js_add1_def example_defs
      getInitialState_status)

text \<open>A wire that passes the validation is appended; nothing else of the bench changes.\<close>

lemma wireUp_valid:
  assumes "valid (checkConnectionCompatibility state f t (Some p))" and "p \<noteq> []"
  shows "connections (wireUp state f t p) = connections state @
           [\<lparr> c_from = f, c_to = t, c_polarity = p,
              c_wireProperties =
                Some \<lparr> wp_type = Some ''standard'', wp_resistance = Some 0.05 \<rparr> \<rparr>]"
    and "components (wireUp state f t p) = components state"
    and "errorSimulation (wireUp state f t p) = errorSimulation state"
  using assms
  by (simp_all add: wireUp_def addConnection_def Let_def)

lemma roles:
  "''fluke5500a'' \<in> set getCalibratorTypes" "''sma100a'' \<in> set getCalibratorTypes"
  "''multimeter'' \<in> set getUUCTypes" "''u3606a'' \<in> set getUUCTypes"
  "''clamp_meter'' \<in> set getUUCTypes"
  by (simp_all add: getCalibratorTypes_def getUUCTypes_def DEVICES_def)

lemmas wiring =
  benchOf_def placeDevices_store wireUp_valid checkConnectionCompatibility_def roles
  example_defs Let_def

lemma rfAux_store:
  "connections rfAux = [wireOf ''aux_hi'', wireOf ''aux_lo'']"
  "components rfAux = [sourceOf ''sma100a'' [SetRfOn True], meterOf ''multimeter'']"
  by (simp_all add: rfAux_def wiring)

lemma calibratorAux_store:
  "connections calibratorAux = [wireOf ''aux_hi'', wireOf ''aux_lo'']"
  "components calibratorAux =
     [sourceOf ''fluke5500a'' [SetOutput True, SetValue 10], meterOf ''multimeter'']"
  by (simp_all add: calibratorAux_def wiring)

lemma clamped_store:
  "connections clamped = [wireOf ''clamp'']"
  "components clamped =
     [sourceOf ''fluke5500a''
        [SetOutput True, SetMode (Some ''DC Current''), SetValue 2, SetUnit ''A''],
      meterOf ''clamp_meter'']"
  by (simp_all add: clamped_def wiring)

lemma u3606aVolts_store:
  "connections u3606aVolts = [wireOf ''hi'', wireOf ''lo'']"
  "components u3606aVolts =
     [sourceOf ''fluke5500a'' [SetOutput True, SetValue 10], meterOf ''u3606a'']"
  "loadingError (errorSimulation u3606aVolts)"
  by (simp_all add: u3606aVolts_def wiring initialState_def)

lemma u3606aOhms_store:
  "connections u3606aOhms =
     [(wireOf ''hi'') \<lparr> c_wireProperties :=
         Some \<lparr> wp_type = Some ''bad'', wp_resistance = Some 5 \<rparr> \<rparr>,
      (wireOf ''lo'') \<lparr> c_wireProperties :=
         Some \<lparr> wp_type = Some ''bad'', wp_resistance = Some 5 \<rparr> \<rparr>]"
  "components u3606aOhms =
     [sourceOf ''fluke5500a''
        [SetOutput True, SetMode (Some ''Resistance''), SetValue 1000, SetUnit OHM],
      meterOf ''u3606a'']"
  "loadingError (errorSimulation u3606aOhms)"
  by (simp_all add: u3606aOhms_def wiring toggleWire_def isStandardWire_def initialState_def)

lemma u3606aHertz_store:
  "connections u3606aHertz = [wireOf ''hi'', wireOf ''lo'']"
  "components u3606aHertz =
     [sourceOf ''fluke5500a''
        [SetOutput True, SetMode (Some ''AC Voltage''), SetValue 5, SetFrequency (Some 60)],
      (meterOf ''u3606a'') \<lparr> cmp_state := (getInitialState ''u3606a'')
         \<lparr> st_power := True, st_mode := Some ''FREQ'', st_unit := ''Hz'', st_value := 0 \<rparr> \<rparr>]"
  by (simp_all add: u3606aHertz_def wiring mergeState_def)

subsection \<open>Circuit resolution\<close>

lemma findWire_Some:
  "findWire conns i p = Some w \<Longrightarrow> w \<in> set conns \<and> c_to w = i \<and> c_polarity w = p"
  unfolding findWire_def by (auto simp: find_Some_iff)

lemma findWire_None:
  "findWire conns i p = None \<longleftrightarrow> \<not> (\<exists>w \<in> set conns. c_to w = i \<and> c_polarity w = p)"
  unfolding findWire_def by (auto simp: find_None_iff)

lemma samePair_Some:
  "samePair a b = Some (h, l) \<longleftrightarrow> a = Some h \<and> b = Some l \<and> c_from h = c_from l"
  by (auto simp: samePair_def split: option.splits)

lemma samePair_None:
  "samePair a b = None \<longleftrightarrow> \<not> (\<exists>h l. a = Some h \<and> b = Some l \<and> c_from h = c_from l)"
  by (auto simp: samePair_def split: option.splits)

lemma resolveCircuit_Some:
  "resolveCircuit conns i = Some (sid, aux, h, l) \<longleftrightarrow>
     c_from h = sid \<and> c_from l = sid \<and>
     (if aux
      then samePair (findWire conns i ''hi'') (findWire conns i ''lo'') = None \<and>
           findWire conns i ''aux_hi'' = Some h \<and> findWire conns i ''aux_lo'' = Some l
      else findWire conns i ''hi'' = Some h \<and> findWire conns i ''lo'' = Some l)"
  by (auto simp: resolveCircuit_def Let_def samePair_def split: option.splits if_splits)

lemma resolveCircuit_None:
  "resolveCircuit conns i = None \<longleftrightarrow>
     samePair (findWire conns i ''hi'') (findWire conns i ''lo'') = None \<and>
     samePair (findWire conns i ''aux_hi'') (findWire conns i ''aux_lo'') = None"
  by (auto simp: resolveCircuit_def Let_def split: option.splits)

lemma find_id_Some:
  "find (\<lambda>c. cmp_id c = i) comps = Some src \<Longrightarrow> src \<in> set comps \<and> cmp_id src = i"
  by (auto simp: find_Some_iff)

text \<open>What a non-null result of either device implies.\<close>

lemma Multimeter_result_source:
  assumes "Multimeter_getConnectedValue le conns comps i = Inr (Some cv)"
  shows "\<exists>sid aux h l src.
           resolveCircuit conns i = Some (sid, aux, h, l) \<and>
           find (\<lambda>c. cmp_id c = sid) comps = Some src \<and> st_power (cmp_state src)"
  using assms unfolding Multimeter_getConnectedValue_def
  by (auto split: option.splits if_splits prod.splits)

lemma Fluke117_result_source:
  assumes "Fluke117_getConnectedValue le conns comps i = Inr (Some cv)"
  shows "\<exists>sid aux h l src.
           resolveCircuit conns i = Some (sid, aux, h, l) \<and>
           find (\<lambda>c. cmp_id c = sid) comps = Some src \<and> st_power (cmp_state src)"
  using assms unfolding Fluke117_getConnectedValue_def
  by (auto split: option.splits if_splits prod.splits)

lemma resolved_wires:
  assumes "resolveCircuit conns i = Some (sid, aux, h, l)"
  shows "h \<in> set conns \<and> l \<in> set conns \<and> c_to h = i \<and> c_to l = i \<and>
         (c_polarity h = ''hi'' \<and> c_polarity l = ''lo'' \<or>
          c_polarity h = ''aux_hi'' \<and> c_polarity l = ''aux_lo'') \<and>
         c_from h = sid \<and> c_from l = sid"
proof (cases aux)
  case True
  with assms have "findWire conns i ''aux_hi'' = Some h" "findWire conns i ''aux_lo'' = Some l"
    "c_from h = sid" "c_from l = sid"
    by (simp_all add: resolveCircuit_Some)
  then show ?thesis using findWire_Some [of conns i "''aux_hi''" h]
      findWire_Some [of conns i "''aux_lo''" l] by simp
next
  case False
  with assms have "findWire conns i ''hi'' = Some h" "findWire conns i ''lo'' = Some l"
    "c_from h = sid" "c_from l = sid"
    by (simp_all add: resolveCircuit_Some)
  then show ?thesis using findWire_Some [of conns i "''hi''" h]
      findWire_Some [of conns i "''lo''" l] by simp
qed

lemma unresolved_null:
  assumes "resolveCircuit conns i = None"
  shows "Multimeter_getConnectedValue le conns comps i = Inr None"
    and "Fluke117_getConnectedValue le conns comps i = Inr None"
  using assms
  by (simp_all add: Multimeter_getConnectedValue_def Fluke117_getConnectedValue_def)

lemma unpowered_null:
  assumes "resolveCircuit conns i = Some (sid, aux, h, l)"
    and "\<forall>src. find (\<lambda>c. cmp_id c = sid) comps = Some src \<longrightarrow> \<not> st_power (cmp_state src)"
  shows "Multimeter_getConnectedValue le conns comps i = Inr None"
    and "Fluke117_getConnectedValue le conns comps i = Inr None"
  using assms
  by (auto simp: Multimeter_getConnectedValue_def Fluke117_getConnectedValue_def
      split: option.splits)

lemma aux_unit:
  assumes "resolveCircuit conns i = Some (sid, aux, h, l)"
    and "find (\<lambda>c. cmp_id c = sid) comps = Some src"
    and "cmp_type src = ''fluke5500a'' \<or> cmp_type src = ''fluke5522a''"
  shows "Multimeter_getConnectedValue le conns comps i = Inr (Some cv) \<Longrightarrow>
           cv_unit cv = (if aux then ''A'' else st_unit (cmp_state src))"
    and "Fluke117_getConnectedValue le conns comps i = Inr (Some cv) \<Longrightarrow>
           cv_unit cv = (if aux then ''mA'' else st_unit (cmp_state src))"
  using assms
  by (auto simp: Multimeter_getConnectedValue_def Fluke117_getConnectedValue_def Let_def
      split: option.splits if_splits sum.splits)

text \<open>
  The result of either device for a circuit resolved to a powered calibrator with output
  on, while the loading error is disabled; and the multimeter's result for a powered RF
  generator with RF on.
\<close>

lemma plain_result:
  assumes "resolveCircuit conns i = Some (sid, aux, h, l)"
    and "find (\<lambda>c. cmp_id c = sid) comps = Some src"
    and "st_power (cmp_state src)"
    and "cmp_type src = ''fluke5500a'' \<or> cmp_type src = ''fluke5522a''"
    and "st_output (cmp_state src)"
  shows "Multimeter_getConnectedValue False conns comps i =
           Inr (Some \<lparr> cv_value = st_value (cmp_state src),
                       cv_unit = (if aux then ''A'' else st_unit (cmp_state src)),
                       cv_mode = st_mode (cmp_state src),
                       cv_mappedMode =
                         Some (mapMode Multimeter_modeMapping (st_mode (cmp_state src))),
                       cv_frequency = Some (frequencyOr1000 (st_frequency (cmp_state src))),
                       cv_active = True, cv_wireResistance = Some 0 \<rparr>)"
    and "Fluke117_getConnectedValue False conns comps i =
           Inr (Some \<lparr> cv_value = st_value (cmp_state src),
                       cv_unit = (if aux then ''mA'' else st_unit (cmp_state src)),
                       cv_mode = st_mode (cmp_state src),
                       cv_mappedMode =
                         Some (mapMode Fluke117_MODE_MAPPING (st_mode (cmp_state src))),
                       cv_frequency = Some (frequencyOr1000 (st_frequency (cmp_state src))),
                       cv_active = True, cv_wireResistance = None \<rparr>)"
  using assms
  by (auto simp: Multimeter_getConnectedValue_def Fluke117_getConnectedValue_def Let_def
      Multimeter_loading_def Fluke117_loading_def)

text \<open>
  Claim C2, as the code has it.  \<open>getConnectedValue\<close> of the multimeter (\<open>M\<close>) and
  of the Fluke 117 (\<open>F\<close>), for a sink id \<open>i\<close> and any connections and components.
  A wire of a polarity is the first connection that ends at the sink with that polarity,
  and a pair of polarities is complete when both wires exist and have the same \<open>from\<close>
  id.
  \<^item> A result other than \<open>null\<close> implies a \<open>hi\<close> and a \<open>lo\<close> wire, or an
    \<open>aux_hi\<close> and an \<open>aux_lo\<close> wire, that both end at the sink and start at the same
    source id, and a component with that id whose \<open>state.power\<close> is true.
  \<^item> When neither pair is complete (a wire is missing, or the two wires start at
    different sources), the result is \<open>null\<close>; so it is when the source of the pair
    that is tried does not exist or is not powered.  \<open>null\<close> is the value
    \<open>Inr None\<close>, no error.
  \<^item> The pair \<open>hi\<close>/\<open>lo\<close> is tried first: when it is complete, its source is a
    powered calibrator (Fluke 5500A or 5522A) with output on and the loading error is
    disabled, both devices return that source's value, mode and frequency with the
    source's own unit, whatever the auxiliary wires are.
  \<^item> Only when the pair \<open>hi\<close>/\<open>lo\<close> is not complete and the pair
    \<open>aux_hi\<close>/\<open>aux_lo\<close> is, the latter is resolved, and for a calibrator the flag
    \<open>isAuxConnection\<close> replaces the source's unit: by \<open>A\<close> in the multimeter, by
    \<open>mA\<close> in the Fluke 117.  The unit is that one also while the loading error is
    enabled.
\<close>

theorem circuit_resolution:
  fixes conns :: "connection list" and comps :: "component list" and i :: int and le :: bool
    and M F :: "js_outcome + connected_value option"
    and complete :: "string \<Rightarrow> string \<Rightarrow> bool"
    and calibrator :: "component \<Rightarrow> bool"
    and resultM resultF :: "component \<Rightarrow> bool \<Rightarrow> connected_value"
  defines "M \<equiv> Multimeter_getConnectedValue le conns comps i"
    and "F \<equiv> Fluke117_getConnectedValue le conns comps i"
    and "complete \<equiv> (\<lambda>p1 p2. \<exists>h l. findWire conns i p1 = Some h \<and>
                          findWire conns i p2 = Some l \<and> c_from h = c_from l)"
    and "calibrator \<equiv> (\<lambda>src. cmp_type src = ''fluke5500a'' \<or> cmp_type src = ''fluke5522a'')"
    and "resultM \<equiv> (\<lambda>src aux.
           \<lparr> cv_value = st_value (cmp_state src),
             cv_unit = (if aux then ''A'' else st_unit (cmp_state src)),
             cv_mode = st_mode (cmp_state src),
             cv_mappedMode = Some (mapMode Multimeter_modeMapping (st_mode (cmp_state src))),
             cv_frequency = Some (frequencyOr1000 (st_frequency (cmp_state src))),
             cv_active = True, cv_wireResistance = Some 0 \<rparr>)"
    and "resultF \<equiv> (\<lambda>src aux.
           \<lparr> cv_value = st_value (cmp_state src),
             cv_unit = (if aux then ''mA'' else st_unit (cmp_state src)),
             cv_mode = st_mode (cmp_state src),
             cv_mappedMode = Some (mapMode Fluke117_MODE_MAPPING (st_mode (cmp_state src))),
             cv_frequency = Some (frequencyOr1000 (st_frequency (cmp_state src))),
             cv_active = True, cv_wireResistance = None \<rparr>)"
  shows
  "(\<forall>cv. M = Inr (Some cv) \<or> F = Inr (Some cv) \<longrightarrow>
      (\<exists>h l src.
         h \<in> set conns \<and> l \<in> set conns \<and> c_to h = i \<and> c_to l = i \<and>
         (c_polarity h = ''hi'' \<and> c_polarity l = ''lo'' \<or>
          c_polarity h = ''aux_hi'' \<and> c_polarity l = ''aux_lo'') \<and>
         c_from h = c_from l \<and>
         src \<in> set comps \<and> cmp_id src = c_from h \<and> st_power (cmp_state src))) \<and>
   (\<not> complete ''hi'' ''lo'' \<and> \<not> complete ''aux_hi'' ''aux_lo'' \<longrightarrow>
      M = Inr None \<and> F = Inr None) \<and>
   (\<forall>h l. findWire conns i ''hi'' = Some h \<and> findWire conns i ''lo'' = Some l \<and>
           c_from h = c_from l \<longrightarrow>
      ((\<forall>src. find (\<lambda>c. cmp_id c = c_from h) comps = Some src \<longrightarrow>
               \<not> st_power (cmp_state src)) \<longrightarrow>
         M = Inr None \<and> F = Inr None) \<and>
      (\<forall>src. find (\<lambda>c. cmp_id c = c_from h) comps = Some src \<and>
              st_power (cmp_state src) \<and> calibrator src \<longrightarrow>
         (st_output (cmp_state src) \<and> \<not> le \<longrightarrow>
            M = Inr (Some (resultM src False)) \<and> F = Inr (Some (resultF src False))) \<and>
         (\<forall>cv. M = Inr (Some cv) \<or> F = Inr (Some cv) \<longrightarrow>
               cv_unit cv = st_unit (cmp_state src)))) \<and>
   (\<forall>h l. \<not> complete ''hi'' ''lo'' \<and>
           findWire conns i ''aux_hi'' = Some h \<and> findWire conns i ''aux_lo'' = Some l \<and>
           c_from h = c_from l \<longrightarrow>
      ((\<forall>src. find (\<lambda>c. cmp_id c = c_from h) comps = Some src \<longrightarrow>
               \<not> st_power (cmp_state src)) \<longrightarrow>
         M = Inr None \<and> F = Inr None) \<and>
      (\<forall>src. find (\<lambda>c. cmp_id c = c_from h) comps = Some src \<and>
              st_power (cmp_state src) \<and> calibrator src \<longrightarrow>
         (st_output (cmp_state src) \<and> \<not> le \<longrightarrow>
            M = Inr (Some (resultM src True)) \<and> F = Inr (Some (resultF src True))) \<and>
         (\<forall>cv. M = Inr (Some cv) \<longrightarrow> cv_unit cv = ''A'') \<and>
         (\<forall>cv. F = Inr (Some cv) \<longrightarrow> cv_unit cv = ''mA'')))"
proof -
  have c: "(\<not> complete p1 p2) = (samePair (findWire conns i p1) (findWire conns i p2) = None)"
    for p1 p2
    unfolding complete_def by (simp only: samePair_None)
  have 1: "\<exists>h l src.
         h \<in> set conns \<and> l \<in> set conns \<and> c_to h = i \<and> c_to l = i \<and>
         (c_polarity h = ''hi'' \<and> c_polarity l = ''lo'' \<or>
          c_polarity h = ''aux_hi'' \<and> c_polarity l = ''aux_lo'') \<and>
         c_from h = c_from l \<and>
         src \<in> set comps \<and> cmp_id src = c_from h \<and> st_power (cmp_state src)"
    if "M = Inr (Some cv) \<or> F = Inr (Some cv)" for cv
  proof -
    from that obtain sid aux h l src where r: "resolveCircuit conns i = Some (sid, aux, h, l)"
      and s: "find (\<lambda>c. cmp_id c = sid) comps = Some src" and p: "st_power (cmp_state src)"
      unfolding M_def F_def
      using Multimeter_result_source Fluke117_result_source by blast
    from resolved_wires [OF r] find_id_Some [OF s] p show ?thesis
      by (intro exI [of _ h] exI [of _ l] exI [of _ src]) simp
  qed
  have 2: "M = Inr None \<and> F = Inr None"
    if "\<not> complete ''hi'' ''lo'' \<and> \<not> complete ''aux_hi'' ''aux_lo''"
  proof -
    from that have "resolveCircuit conns i = None"
      by (simp only: c resolveCircuit_None)
    then show ?thesis unfolding M_def F_def by (simp add: unresolved_null)
  qed
  have res: "(\<forall>src. find (\<lambda>c. cmp_id c = sid) comps = Some src \<longrightarrow>
               \<not> st_power (cmp_state src)) \<longrightarrow>
         M = Inr None \<and> F = Inr None"
    "find (\<lambda>c. cmp_id c = sid) comps = Some src \<and>
              st_power (cmp_state src) \<and> calibrator src \<longrightarrow>
         (st_output (cmp_state src) \<and> \<not> le \<longrightarrow>
            M = Inr (Some (resultM src aux)) \<and> F = Inr (Some (resultF src aux))) \<and>
         (\<forall>cv. M = Inr (Some cv) \<longrightarrow>
               cv_unit cv = (if aux then ''A'' else st_unit (cmp_state src))) \<and>
         (\<forall>cv. F = Inr (Some cv) \<longrightarrow>
               cv_unit cv = (if aux then ''mA'' else st_unit (cmp_state src)))"
    if r: "resolveCircuit conns i = Some (sid, aux, h, l)" for sid aux h l src
  proof -
    show "(\<forall>src. find (\<lambda>c. cmp_id c = sid) comps = Some src \<longrightarrow>
               \<not> st_power (cmp_state src)) \<longrightarrow>
         M = Inr None \<and> F = Inr None"
      unfolding M_def F_def using unpowered_null [OF r, of comps le] by blast
    show "find (\<lambda>c. cmp_id c = sid) comps = Some src \<and>
              st_power (cmp_state src) \<and> calibrator src \<longrightarrow>
         (st_output (cmp_state src) \<and> \<not> le \<longrightarrow>
            M = Inr (Some (resultM src aux)) \<and> F = Inr (Some (resultF src aux))) \<and>
         (\<forall>cv. M = Inr (Some cv) \<longrightarrow>
               cv_unit cv = (if aux then ''A'' else st_unit (cmp_state src))) \<and>
         (\<forall>cv. F = Inr (Some cv) \<longrightarrow>
               cv_unit cv = (if aux then ''mA'' else st_unit (cmp_state src)))"
    proof (intro impI conjI allI)
      assume a: "find (\<lambda>c. cmp_id c = sid) comps = Some src \<and>
              st_power (cmp_state src) \<and> calibrator src"
      then have s: "find (\<lambda>c. cmp_id c = sid) comps = Some src"
        and p: "st_power (cmp_state src)"
        and t: "cmp_type src = ''fluke5500a'' \<or> cmp_type src = ''fluke5522a''"
        unfolding calibrator_def by simp_all
      {
        assume o: "st_output (cmp_state src) \<and> \<not> le"
        then have le: "le = False" and out: "st_output (cmp_state src)" by simp_all
        show "M = Inr (Some (resultM src aux))"
          unfolding M_def resultM_def le by (rule plain_result(1) [OF r s p t out])
        show "F = Inr (Some (resultF src aux))"
          unfolding F_def resultF_def le by (rule plain_result(2) [OF r s p t out])
      }
      {
        fix cv assume "M = Inr (Some cv)"
        then show "cv_unit cv = (if aux then ''A'' else st_unit (cmp_state src))"
          unfolding M_def by (rule aux_unit(1) [OF r s t])
      }
      {
        fix cv assume "F = Inr (Some cv)"
        then show "cv_unit cv = (if aux then ''mA'' else st_unit (cmp_state src))"
          unfolding F_def by (rule aux_unit(2) [OF r s t])
      }
    qed
  qed
  have 3: "((\<forall>src. find (\<lambda>c. cmp_id c = c_from h) comps = Some src \<longrightarrow>
               \<not> st_power (cmp_state src)) \<longrightarrow>
         M = Inr None \<and> F = Inr None) \<and>
      (\<forall>src. find (\<lambda>c. cmp_id c = c_from h) comps = Some src \<and>
              st_power (cmp_state src) \<and> calibrator src \<longrightarrow>
         (st_output (cmp_state src) \<and> \<not> le \<longrightarrow>
            M = Inr (Some (resultM src False)) \<and> F = Inr (Some (resultF src False))) \<and>
         (\<forall>cv. M = Inr (Some cv) \<or> F = Inr (Some cv) \<longrightarrow>
               cv_unit cv = st_unit (cmp_state src)))"
    if "findWire conns i ''hi'' = Some h \<and> findWire conns i ''lo'' = Some l \<and>
           c_from h = c_from l" for h l
  proof -
    from that have r: "resolveCircuit conns i = Some (c_from h, False, h, l)"
      by (simp add: resolveCircuit_Some)
    from res(1) [OF r] res(2) [OF r] show ?thesis by (simp only: if_False) blast
  qed
  have 4: "((\<forall>src. find (\<lambda>c. cmp_id c = c_from h) comps = Some src \<longrightarrow>
               \<not> st_power (cmp_state src)) \<longrightarrow>
         M = Inr None \<and> F = Inr None) \<and>
      (\<forall>src. find (\<lambda>c. cmp_id c = c_from h) comps = Some src \<and>
              st_power (cmp_state src) \<and> calibrator src \<longrightarrow>
         (st_output (cmp_state src) \<and> \<not> le \<longrightarrow>
            M = Inr (Some (resultM src True)) \<and> F = Inr (Some (resultF src True))) \<and>
         (\<forall>cv. M = Inr (Some cv) \<longrightarrow> cv_unit cv = ''A'') \<and>
         (\<forall>cv. F = Inr (Some cv) \<longrightarrow> cv_unit cv = ''mA''))"
    if "\<not> complete ''hi'' ''lo'' \<and>
           findWire conns i ''aux_hi'' = Some h \<and> findWire conns i ''aux_lo'' = Some l \<and>
           c_from h = c_from l" for h l
  proof -
    from that have r: "resolveCircuit conns i = Some (c_from h, True, h, l)"
      by (simp only: resolveCircuit_Some c if_True simp_thms)
    from res(1) [OF r] res(2) [OF r] show ?thesis by (simp only: if_True) blast
  qed
  from 1 2 3 4 show ?thesis by blast
qed


theorem circuit_resolution_witness:
  "Multimeter_getConnectedValue False [auxHiWire01, hiWire01, auxLoWire01, loWire01]
       benchComponents 1 =
     Inr (Some \<lparr> cv_value = 10, cv_unit = ''V'', cv_mode = Some ''DC Voltage'',
                 cv_mappedMode = Some (ModeName ''DC V''), cv_frequency = Some 1000,
                 cv_active = True, cv_wireResistance = Some 0 \<rparr>) \<and>
   Fluke117_getConnectedValue False [auxHiWire01, hiWire01, auxLoWire01, loWire01]
       benchComponents 1 =
     Inr (Some \<lparr> cv_value = 10, cv_unit = ''V'', cv_mode = Some ''DC Voltage'',
                 cv_mappedMode = Some (ModeName ''DC V''), cv_frequency = Some 1000,
                 cv_active = True, cv_wireResistance = None \<rparr>) \<and>
   Multimeter_getConnectedValue False [auxHiWire01, hiWire01, auxLoWire01] benchComponents 1 =
     Inr (Some \<lparr> cv_value = 10, cv_unit = ''A'', cv_mode = Some ''DC Voltage'',
                 cv_mappedMode = Some (ModeName ''DC V''), cv_frequency = Some 1000,
                 cv_active = True, cv_wireResistance = Some 0 \<rparr>) \<and>
   Fluke117_getConnectedValue False [auxHiWire01, hiWire01, auxLoWire01] benchComponents 1 =
     Inr (Some \<lparr> cv_value = 10, cv_unit = ''mA'', cv_mode = Some ''DC Voltage'',
                 cv_mappedMode = Some (ModeName ''DC V''), cv_frequency = Some 1000,
                 cv_active = True, cv_wireResistance = None \<rparr>) \<and>
   Multimeter_getConnectedValue False [hiWire01] benchComponents 1 = Inr None \<and>
   Fluke117_getConnectedValue False [hiWire01] benchComponents 1 = Inr None \<and>
   Multimeter_getConnectedValue False [hiWire01, loWire01] benchUnpowered 1 = Inr None \<and>
   Fluke117_getConnectedValue False [hiWire01, loWire01] benchUnpowered 1 = Inr None \<and>
   Multimeter_getConnectedValue False [auxHiWire01, auxLoWire01] benchUnpowered 1 = Inr None \<and>
   Fluke117_getConnectedValue False [auxHiWire01, auxLoWire01] benchUnpowered 1 = Inr None \<and>
   (\<exists>cv. Multimeter_getConnectedValue True [auxHiWire01, hiWire01, auxLoWire01, loWire01]
           benchComponents 1 = Inr (Some cv) \<and> cv_unit cv = ''V'') \<and>
   (\<exists>cv. Fluke117_getConnectedValue True [auxHiWire01, hiWire01, auxLoWire01, loWire01]
           benchComponents 1 = Inr (Some cv) \<and> cv_unit cv = ''V'') \<and>
   (\<exists>cv. Multimeter_getConnectedValue True [auxHiWire01, hiWire01, auxLoWire01]
           benchComponents 1 = Inr (Some cv) \<and> cv_unit cv = ''A'') \<and>
   (\<exists>cv. Fluke117_getConnectedValue True [auxHiWire01, hiWire01, auxLoWire01]
           benchComponents 1 = Inr (Some cv) \<and> cv_unit cv = ''mA'') \<and>
   (\<exists>h l src.
      h \<in> set [hiWire01, loWire01] \<and> l \<in> set [hiWire01, loWire01] \<and> c_to h = 1 \<and> c_to l = 1 \<and>
      (c_polarity h = ''hi'' \<and> c_polarity l = ''lo'' \<or>
       c_polarity h = ''aux_hi'' \<and> c_polarity l = ''aux_lo'') \<and>
      c_from h = c_from l \<and>
      src \<in> set benchComponents \<and> cmp_id src = c_from h \<and> st_power (cmp_state src))"
proof -
  let ?both = "[hiWire01, loWire01]"
  let ?all = "[auxHiWire01, hiWire01, auxLoWire01, loWire01]"
  let ?aux = "[auxHiWire01, hiWire01, auxLoWire01]"
  have w: "findWire ?all 1 ''hi'' = Some hiWire01 \<and> findWire ?all 1 ''lo'' = Some loWire01 \<and>
             c_from hiWire01 = c_from loWire01"
    "findWire ?both 1 ''hi'' = Some hiWire01 \<and> findWire ?both 1 ''lo'' = Some loWire01 \<and>
             c_from hiWire01 = c_from loWire01"
    by (simp_all add: findWire_def bench_defs)
  have wa: "\<not> (\<exists>h l. findWire ?aux 1 ''hi'' = Some h \<and>
               findWire ?aux 1 ''lo'' = Some l \<and> c_from h = c_from l) \<and>
            findWire ?aux 1 ''aux_hi'' = Some auxHiWire01 \<and>
            findWire ?aux 1 ''aux_lo'' = Some auxLoWire01 \<and>
            c_from auxHiWire01 = c_from auxLoWire01"
    by (simp add: findWire_def bench_defs)
  have inc: "\<not> (\<exists>h l. findWire [hiWire01] 1 ''hi'' = Some h \<and>
               findWire [hiWire01] 1 ''lo'' = Some l \<and> c_from h = c_from l) \<and>
    \<not> (\<exists>h l. findWire [hiWire01] 1 ''aux_hi'' = Some h \<and>
               findWire [hiWire01] 1 ''aux_lo'' = Some l \<and> c_from h = c_from l)"
    by (simp add: findWire_def hiWire01_def)
  have s: "find (\<lambda>c. cmp_id c = c_from hiWire01) benchComponents = Some sourceOn \<and>
      st_power (cmp_state sourceOn) \<and>
      (cmp_type sourceOn = ''fluke5500a'' \<or> cmp_type sourceOn = ''fluke5522a'')"
    "find (\<lambda>c. cmp_id c = c_from auxHiWire01) benchComponents = Some sourceOn \<and>
      st_power (cmp_state sourceOn) \<and>
      (cmp_type sourceOn = ''fluke5500a'' \<or> cmp_type sourceOn = ''fluke5522a'')"
    "st_output (cmp_state sourceOn) \<and> \<not> False"
    by (simp_all add: bench_defs)
  have off: "\<forall>src. find (\<lambda>c. cmp_id c = c_from hiWire01) benchUnpowered = Some src \<longrightarrow>
               \<not> st_power (cmp_state src)"
    by (simp add: bench_defs)
  have v: "st_value (cmp_state sourceOn) = 10" "st_unit (cmp_state sourceOn) = ''V''"
    "st_mode (cmp_state sourceOn) = Some ''DC Voltage''"
    "st_frequency (cmp_state sourceOn) = Some 1000"
    "mapMode Multimeter_modeMapping (Some ''DC Voltage'') = ModeName ''DC V''"
    "mapMode Fluke117_MODE_MAPPING (Some ''DC Voltage'') = ModeName ''DC V''"
    "frequencyOr1000 (Some 1000) = 1000"
    by (simp_all add: bench_defs measure_defs)
  note primary = circuit_resolution [where conns = ?all and comps = benchComponents and i = 1
      and le = False, THEN conjunct2, THEN conjunct2, THEN conjunct1, rule_format, OF w(1),
      THEN conjunct2, rule_format, OF s(1), THEN conjunct1, rule_format, OF s(3)]
  note auxiliary = circuit_resolution [where conns = ?aux and comps = benchComponents and i = 1
      and le = False, THEN conjunct2, THEN conjunct2, THEN conjunct2, rule_format, OF wa,
      THEN conjunct2, rule_format, OF s(2), THEN conjunct1, rule_format, OF s(3)]
  note incomplete = circuit_resolution [where conns = "[hiWire01]" and comps = benchComponents
      and i = 1 and le = False, THEN conjunct2, THEN conjunct1, rule_format, OF inc]
  note unpowered = circuit_resolution [where conns = ?both and comps = benchUnpowered and i = 1
      and le = False, THEN conjunct2, THEN conjunct2, THEN conjunct1, rule_format, OF w(2),
      THEN conjunct1, rule_format, OF off [rule_format]]
  from primary have 1: "Multimeter_getConnectedValue False ?all benchComponents 1 =
     Inr (Some \<lparr> cv_value = 10, cv_unit = ''V'', cv_mode = Some ''DC Voltage'',
                 cv_mappedMode = Some (ModeName ''DC V''), cv_frequency = Some 1000,
                 cv_active = True, cv_wireResistance = Some 0 \<rparr>) \<and>
   Fluke117_getConnectedValue False ?all benchComponents 1 =
     Inr (Some \<lparr> cv_value = 10, cv_unit = ''V'', cv_mode = Some ''DC Voltage'',
                 cv_mappedMode = Some (ModeName ''DC V''), cv_frequency = Some 1000,
                 cv_active = True, cv_wireResistance = None \<rparr>)"
    unfolding v by simp
  from auxiliary have 2: "Multimeter_getConnectedValue False ?aux benchComponents 1 =
     Inr (Some \<lparr> cv_value = 10, cv_unit = ''A'', cv_mode = Some ''DC Voltage'',
                 cv_mappedMode = Some (ModeName ''DC V''), cv_frequency = Some 1000,
                 cv_active = True, cv_wireResistance = Some 0 \<rparr>) \<and>
   Fluke117_getConnectedValue False ?aux benchComponents 1 =
     Inr (Some \<lparr> cv_value = 10, cv_unit = ''mA'', cv_mode = Some ''DC Voltage'',
                 cv_mappedMode = Some (ModeName ''DC V''), cv_frequency = Some 1000,
                 cv_active = True, cv_wireResistance = None \<rparr>)"
    unfolding v by simp
  from 1 have m: "Multimeter_getConnectedValue False ?both benchComponents 1 =
     Inr (Some \<lparr> cv_value = 10, cv_unit = ''V'', cv_mode = Some ''DC Voltage'',
                 cv_mappedMode = Some (ModeName ''DC V''), cv_frequency = Some 1000,
                 cv_active = True, cv_wireResistance = Some 0 \<rparr>)"
    by (simp add: measure_defs bench_defs)
  note sound = circuit_resolution [where conns = ?both and comps = benchComponents and i = 1
      and le = False, THEN conjunct1, rule_format, OF disjI1, OF m]
  have wu: "\<not> (\<exists>h l. findWire [auxHiWire01, auxLoWire01] 1 ''hi'' = Some h \<and>
               findWire [auxHiWire01, auxLoWire01] 1 ''lo'' = Some l \<and> c_from h = c_from l) \<and>
            findWire [auxHiWire01, auxLoWire01] 1 ''aux_hi'' = Some auxHiWire01 \<and>
            findWire [auxHiWire01, auxLoWire01] 1 ''aux_lo'' = Some auxLoWire01 \<and>
            c_from auxHiWire01 = c_from auxLoWire01"
    by (simp add: findWire_def bench_defs)
  have off': "\<forall>src. find (\<lambda>c. cmp_id c = c_from auxHiWire01) benchUnpowered = Some src \<longrightarrow>
               \<not> st_power (cmp_state src)"
    by (simp add: bench_defs)
  note unpoweredAux = circuit_resolution [where conns = "[auxHiWire01, auxLoWire01]"
      and comps = benchUnpowered and i = 1 and le = False,
      THEN conjunct2, THEN conjunct2, THEN conjunct2, rule_format, OF wu,
      THEN conjunct1, rule_format, OF off' [rule_format]]
  obtain mp fp ma fa where loaded:
    "Multimeter_getConnectedValue True ?all benchComponents 1 = Inr (Some mp)"
    "Fluke117_getConnectedValue True ?all benchComponents 1 = Inr (Some fp)"
    "Multimeter_getConnectedValue True ?aux benchComponents 1 = Inr (Some ma)"
    "Fluke117_getConnectedValue True ?aux benchComponents 1 = Inr (Some fa)"
    by (simp add: measure_defs bench_defs)
  note unitP = circuit_resolution [where conns = ?all and comps = benchComponents and i = 1
      and le = True, THEN conjunct2, THEN conjunct2, THEN conjunct1, rule_format, OF w(1),
      THEN conjunct2, rule_format, OF s(1), THEN conjunct2, rule_format, unfolded v]
  note unitA = circuit_resolution [where conns = ?aux and comps = benchComponents and i = 1
      and le = True, THEN conjunct2, THEN conjunct2, THEN conjunct2, rule_format, OF wa,
      THEN conjunct2, rule_format, OF s(2), THEN conjunct2]
  from unitP [OF disjI1, OF loaded(1)] unitP [OF disjI2, OF loaded(2)]
    unitA [THEN conjunct1, rule_format, OF loaded(3)]
    unitA [THEN conjunct2, rule_format, OF loaded(4)] loaded
  have units: "(\<exists>cv. Multimeter_getConnectedValue True ?all benchComponents 1 = Inr (Some cv) \<and>
                    cv_unit cv = ''V'') \<and>
     (\<exists>cv. Fluke117_getConnectedValue True ?all benchComponents 1 = Inr (Some cv) \<and>
           cv_unit cv = ''V'') \<and>
     (\<exists>cv. Multimeter_getConnectedValue True ?aux benchComponents 1 = Inr (Some cv) \<and>
           cv_unit cv = ''A'') \<and>
     (\<exists>cv. Fluke117_getConnectedValue True ?aux benchComponents 1 = Inr (Some cv) \<and>
           cv_unit cv = ''mA'')"
    by (simp only: simp_thms sum.inject option.inject ex_simps)
  from 1 2 incomplete unpowered unpoweredAux units sound show ?thesis
    by (simp only: simp_thms)
qed

text \<open>
  The claim does not hold as it stands.  Its last sentence fails for an RF generator:
  wired through the auxiliary pair, with RF on, it is read in \<open>dBm\<close>, not in amps.
  It fails for the Fluke 117, which writes \<open>mA\<close> for a calibrator wired through the
  auxiliary pair.  And "for every sink device" fails for the clamp meter, which returns a
  reading from the one wire of polarity \<open>clamp\<close>, without any pair of wires.
\<close>

theorem aux_unit_counterexample:
  "map c_polarity (connections rfAux) = [''aux_hi'', ''aux_lo''] \<and>
   Multimeter_getConnectedValue False (connections rfAux) (components rfAux) 1 =
     Inr (Some \<lparr> cv_value = 15, cv_unit = ''dBm'', cv_mode = None, cv_mappedMode = None,
                 cv_frequency = None, cv_active = True, cv_wireResistance = None \<rparr>) \<and>
   map c_polarity (connections calibratorAux) = [''aux_hi'', ''aux_lo''] \<and>
   Fluke117_getConnectedValue False (connections calibratorAux) (components calibratorAux) 1 =
     Inr (Some \<lparr> cv_value = 10, cv_unit = ''mA'', cv_mode = Some ''DC Voltage'',
                 cv_mappedMode = Some (ModeName ''DC V''), cv_frequency = Some 1000,
                 cv_active = True, cv_wireResistance = None \<rparr>) \<and>
   map c_polarity (connections clamped) = [''clamp''] \<and>
   ClampMeter_getConnectedValue (Some ''clamp'') (connections clamped) (components clamped) 1 =
     Some \<lparr> rd_value = 2, rd_unit = ''A'', rd_active = True \<rparr>"
  unfolding rfAux_store calibratorAux_store clamped_store
  by (simp add: device_defs measure_defs ClampMeter_getConnectedValue_def)


subsection \<open>Loading error\<close>

text \<open>
  The result of either device for a circuit resolved to a powered calibrator with output
  on, while the loading-error flag is enabled.
\<close>

lemma loaded_value:
  assumes r: "resolveCircuit conns i = Some (sid, aux, h, l)"
    and s: "find (\<lambda>c. cmp_id c = sid) comps = Some src"
    and p: "st_power (cmp_state src)"
    and t: "cmp_type src = ''fluke5500a'' \<or> cmp_type src = ''fluke5522a''"
    and out: "st_output (cmp_state src)"
    and m: "st_mode (cmp_state src) = Some mode"
  shows "Multimeter_getConnectedValue True conns comps i =
           (case Multimeter_loading True (wireR h + wireR l) (cmp_state src) of
              Inl e \<Rightarrow> Inl e
            | Inr None \<Rightarrow> Inl NonFinite
            | Inr (Some v) \<Rightarrow>
                Inr (Some \<lparr> cv_value = v,
                            cv_unit = (if aux then ''A'' else st_unit (cmp_state src)),
                            cv_mode = Some mode,
                            cv_mappedMode = Some (mapMode Multimeter_modeMapping (Some mode)),
                            cv_frequency = Some (frequencyOr1000 (st_frequency (cmp_state src))),
                            cv_active = True,
                            cv_wireResistance = Some (wireR h + wireR l) \<rparr>))"
    and "Fluke117_getConnectedValue True conns comps i =
           (case Fluke117_loading True (wireR h + wireR l) (cmp_state src) of
              None \<Rightarrow> Inl NonFinite
            | Some v \<Rightarrow>
                Inr (Some \<lparr> cv_value = v,
                            cv_unit = (if aux then ''mA'' else st_unit (cmp_state src)),
                            cv_mode = Some mode,
                            cv_mappedMode = Some (mapMode Fluke117_MODE_MAPPING (Some mode)),
                            cv_frequency = Some (frequencyOr1000 (st_frequency (cmp_state src))),
                            cv_active = True,
                            cv_wireResistance = None \<rparr>))"
  using assms
  by (auto simp: Multimeter_getConnectedValue_def Fluke117_getConnectedValue_def Let_def
      split: sum.splits option.splits)

lemma wireR_field: "resistanceField w = Some r \<Longrightarrow> r \<noteq> 0 \<Longrightarrow> wireR w = r"
  by (simp add: wireR_def)

text \<open>
  Claim C1, as the code has it.  For a circuit that the multimeter or the Fluke 117
  resolves to a powered calibrator (Fluke 5500A or 5522A) with output on and a mode whose
  name includes \<open>Voltage\<close>, with the loading-error flag enabled, the device returns
  \<open>programmed * (Rmeter / (Rmeter + Rwire))\<close> with \<open>Rmeter = 10,000,000\<close> and
  \<open>Rwire\<close> the sum of the \<open>resistance\<close> fields of the two wires of the circuit, each
  wire having such a field other than 0 (the store writes 0.05 for a standard wire and
  5.0 for a bad one).  The value is a real number unless \<open>Rmeter + Rwire = 0\<close>, where
  the division of doubles is not finite.
\<close>

theorem voltage_loading:
  fixes conns :: "connection list" and comps :: "component list" and i :: int
    and M F :: "js_outcome + connected_value option"
  defines "M \<equiv> Multimeter_getConnectedValue True conns comps i"
    and "F \<equiv> Fluke117_getConnectedValue True conns comps i"
  shows
  "\<forall>sid aux h l src mode rh rl.
      resolveCircuit conns i = Some (sid, aux, h, l) \<and>
      find (\<lambda>c. cmp_id c = sid) comps = Some src \<and>
      st_power (cmp_state src) \<and>
      (cmp_type src = ''fluke5500a'' \<or> cmp_type src = ''fluke5522a'') \<and>
      st_output (cmp_state src) \<and>
      st_mode (cmp_state src) = Some mode \<and> str_includes mode ''Voltage'' \<and>
      resistanceField h = Some rh \<and> rh \<noteq> 0 \<and>
      resistanceField l = Some rl \<and> rl \<noteq> 0 \<longrightarrow>
      (10000000 + (rh + rl) \<noteq> 0 \<longrightarrow>
         (\<exists>cv. M = Inr (Some cv) \<and> cv_active cv \<and>
               cv_value cv = st_value (cmp_state src) * (10000000 / (10000000 + (rh + rl)))) \<and>
         (\<exists>cv. F = Inr (Some cv) \<and> cv_active cv \<and>
               cv_value cv = st_value (cmp_state src) * (10000000 / (10000000 + (rh + rl))))) \<and>
      (10000000 + (rh + rl) = 0 \<longrightarrow> M = Inl NonFinite \<and> F = Inl NonFinite)"
proof (intro conjI allI impI)
  fix sid aux h l src mode rh rl
  assume a: "resolveCircuit conns i = Some (sid, aux, h, l) \<and>
      find (\<lambda>c. cmp_id c = sid) comps = Some src \<and>
      st_power (cmp_state src) \<and>
      (cmp_type src = ''fluke5500a'' \<or> cmp_type src = ''fluke5522a'') \<and>
      st_output (cmp_state src) \<and>
      st_mode (cmp_state src) = Some mode \<and> str_includes mode ''Voltage'' \<and>
      resistanceField h = Some rh \<and> rh \<noteq> 0 \<and>
      resistanceField l = Some rl \<and> rl \<noteq> 0"
  then have w: "wireR h + wireR l = rh + rl"
    by (simp add: wireR_field)
  from a have lv: "M = (case Multimeter_loading True (rh + rl) (cmp_state src) of
              Inl e \<Rightarrow> Inl e
            | Inr None \<Rightarrow> Inl NonFinite
            | Inr (Some v) \<Rightarrow>
                Inr (Some \<lparr> cv_value = v,
                            cv_unit = (if aux then ''A'' else st_unit (cmp_state src)),
                            cv_mode = Some mode,
                            cv_mappedMode = Some (mapMode Multimeter_modeMapping (Some mode)),
                            cv_frequency = Some (frequencyOr1000 (st_frequency (cmp_state src))),
                            cv_active = True,
                            cv_wireResistance = Some (rh + rl) \<rparr>))"
    and lf: "F = (case Fluke117_loading True (rh + rl) (cmp_state src) of
              None \<Rightarrow> Inl NonFinite
            | Some v \<Rightarrow>
                Inr (Some \<lparr> cv_value = v,
                            cv_unit = (if aux then ''mA'' else st_unit (cmp_state src)),
                            cv_mode = Some mode,
                            cv_mappedMode = Some (mapMode Fluke117_MODE_MAPPING (Some mode)),
                            cv_frequency = Some (frequencyOr1000 (st_frequency (cmp_state src))),
                            cv_active = True,
                            cv_wireResistance = None \<rparr>))"
    unfolding M_def F_def w [symmetric] by (simp_all add: loaded_value)
  from a have lm: "Multimeter_loading True (rh + rl) (cmp_state src) =
      Inr (map_option (\<lambda>q. st_value (cmp_state src) * q)
             (js_div 10000000 (10000000 + (rh + rl))))"
    and lfl: "Fluke117_loading True (rh + rl) (cmp_state src) =
      map_option (\<lambda>q. st_value (cmp_state src) * q)
             (js_div 10000000 (10000000 + (rh + rl)))"
    by (simp_all add: Multimeter_loading_def Fluke117_loading_def)
  {
    assume nz: "10000000 + (rh + rl) \<noteq> 0"
    show "\<exists>cv. M = Inr (Some cv) \<and> cv_active cv \<and>
               cv_value cv = st_value (cmp_state src) * (10000000 / (10000000 + (rh + rl)))"
      using nz by (simp add: lv lm js_div_def)
    show "\<exists>cv. F = Inr (Some cv) \<and> cv_active cv \<and>
               cv_value cv = st_value (cmp_state src) * (10000000 / (10000000 + (rh + rl)))"
      using nz by (simp add: lf lfl js_div_def)
  }
  {
    assume z: "10000000 + (rh + rl) = 0"
    show "M = Inl NonFinite" using z by (simp add: lv lm js_div_def)
    show "F = Inl NonFinite" using z by (simp add: lf lfl js_div_def)
  }
qed

theorem voltage_loading_witness:
  "(\<exists>cv. Multimeter_getConnectedValue True [hiWire01, loWire01] benchComponents 1 = Inr (Some cv) \<and>
         cv_active cv \<and> cv_value cv = 10 * (10000000 / (10000000 + 0.1))) \<and>
   (\<exists>cv. Fluke117_getConnectedValue True [hiWire01, loWire01] benchComponents 1 = Inr (Some cv) \<and>
         cv_active cv \<and> cv_value cv = 10 * (10000000 / (10000000 + 0.1))) \<and>
   (\<exists>cv. Multimeter_getConnectedValue True [badHi, badLo] benchComponents 1 = Inr (Some cv) \<and>
         cv_active cv \<and> cv_value cv = 10 * (10000000 / (10000000 + 10))) \<and>
   (\<exists>cv. Fluke117_getConnectedValue True [badHi, badLo] benchComponents 1 = Inr (Some cv) \<and>
         cv_active cv \<and> cv_value cv = 10 * (10000000 / (10000000 + 10))) \<and>
   \<bar>10 * (10000000 / (10000000 + 0.1)) - 9.9999999\<bar> < (1 / 1000000 :: real)"
proof -
  have std: "resolveCircuit [hiWire01, loWire01] 1 = Some (0, False, hiWire01, loWire01) \<and>
      find (\<lambda>c. cmp_id c = 0) benchComponents = Some sourceOn \<and>
      st_power (cmp_state sourceOn) \<and>
      (cmp_type sourceOn = ''fluke5500a'' \<or> cmp_type sourceOn = ''fluke5522a'') \<and>
      st_output (cmp_state sourceOn) \<and>
      st_mode (cmp_state sourceOn) = Some ''DC Voltage'' \<and>
      str_includes ''DC Voltage'' ''Voltage'' \<and>
      resistanceField hiWire01 = Some 0.05 \<and> (0.05 :: real) \<noteq> 0 \<and>
      resistanceField loWire01 = Some 0.05 \<and> (0.05 :: real) \<noteq> 0"
    by (simp add: measure_defs bench_defs)
  have bad: "resolveCircuit [badHi, badLo] 1 = Some (0, False, badHi, badLo) \<and>
      find (\<lambda>c. cmp_id c = 0) benchComponents = Some sourceOn \<and>
      st_power (cmp_state sourceOn) \<and>
      (cmp_type sourceOn = ''fluke5500a'' \<or> cmp_type sourceOn = ''fluke5522a'') \<and>
      st_output (cmp_state sourceOn) \<and>
      st_mode (cmp_state sourceOn) = Some ''DC Voltage'' \<and>
      str_includes ''DC Voltage'' ''Voltage'' \<and>
      resistanceField badHi = Some 5 \<and> (5 :: real) \<noteq> 0 \<and>
      resistanceField badLo = Some 5 \<and> (5 :: real) \<noteq> 0"
    by (simp add: measure_defs bench_defs ohm_example_defs)
  have v: "st_value (cmp_state sourceOn) = 10" by (simp add: bench_defs)
  have nz: "(10000000 :: real) + (0.05 + 0.05) \<noteq> 0" "(10000000 :: real) + (5 + 5) \<noteq> 0"
    by simp_all
  note a = voltage_loading [where conns = "[hiWire01, loWire01]" and comps = benchComponents
      and i = 1, rule_format, OF std, THEN conjunct1, rule_format, OF nz(1), unfolded v]
  note b = voltage_loading [where conns = "[badHi, badLo]" and comps = benchComponents
      and i = 1, rule_format, OF bad, THEN conjunct1, rule_format, OF nz(2), unfolded v]
  have e: "(0.05 :: real) + 0.05 = 0.1" "(5 :: real) + 5 = 10" by simp_all
  from a b show ?thesis unfolding e by simp
qed

text \<open>
  The claim's "for every resolved circuit" fails: the U3606A resolves the same circuit
  and never reads the loading-error flag.  With the flag enabled, a calibrator that is
  programmed to 10 V DC and wired with two standard wires is read as 10 V, which is not
  the loaded value.
\<close>

theorem u3606a_unloaded_counterexample:
  "loadingError (errorSimulation u3606aVolts) \<and>
   cmp_type (components u3606aVolts ! 1) = ''u3606a'' \<and>
   st_mode (cmp_state (components u3606aVolts ! 0)) = Some ''DC Voltage'' \<and>
   map resistanceField (connections u3606aVolts) = [Some 0.05, Some 0.05] \<and>
   resolveCircuit (connections u3606aVolts) 1 =
     Some (0, False, connections u3606aVolts ! 0, connections u3606aVolts ! 1) \<and>
   U3606A_getConnectedValue (connections u3606aVolts) (components u3606aVolts) 1 =
     Some \<lparr> rd_value = 10, rd_unit = ''V'', rd_active = True \<rparr> \<and>
   U3606A_baseValue (cmp_state (components u3606aVolts ! 1))
     (U3606A_getConnectedValue (connections u3606aVolts) (components u3606aVolts) 1) = 10 \<and>
   (10 :: real) \<noteq> 10 * (10000000 / (10000000 + (0.05 + 0.05)))"
  unfolding u3606aVolts_store(1,2)
  using u3606aVolts_store(3)
  by (simp add: device_defs measure_defs U3606A_getConnectedValue_def U3606A_baseValue_def)

text \<open>
  Claim C6, as the code has it.  For a circuit that the multimeter or the Fluke 117
  resolves to a powered calibrator (Fluke 5500A or 5522A) with output on and the mode
  \<open>Resistance\<close>, with the loading-error flag enabled, the device returns the
  programmed value plus the summed wire resistance \<open>wireResistance = rHi + rLo\<close>.  The
  resistance of a wire is its \<open>resistance\<close> field (5.0 for a bad wire, 0.05 for a
  standard one); the code reads the field as \<open>resistance || 0.05\<close>, which is 0.05
  when the field is missing or zero.
\<close>

theorem resistance_loading:
  fixes conns :: "connection list" and comps :: "component list" and i :: int
    and M F :: "js_outcome + connected_value option"
  defines "M \<equiv> Multimeter_getConnectedValue True conns comps i"
    and "F \<equiv> Fluke117_getConnectedValue True conns comps i"
  shows
  "(\<forall>sid aux h l src.
      resolveCircuit conns i = Some (sid, aux, h, l) \<and>
      find (\<lambda>c. cmp_id c = sid) comps = Some src \<and>
      st_power (cmp_state src) \<and>
      (cmp_type src = ''fluke5500a'' \<or> cmp_type src = ''fluke5522a'') \<and>
      st_output (cmp_state src) \<and>
      st_mode (cmp_state src) = Some ''Resistance'' \<longrightarrow>
      (\<exists>cv. M = Inr (Some cv) \<and>
            cv_value cv = st_value (cmp_state src) + (wireR h + wireR l)) \<and>
      (\<exists>cv. F = Inr (Some cv) \<and>
            cv_value cv = st_value (cmp_state src) + (wireR h + wireR l))) \<and>
   (\<forall>w wp r. c_wireProperties w = Some wp \<and> wp_resistance wp = Some r \<and> r \<noteq> 0 \<longrightarrow>
      wireR w = r) \<and>
   (\<forall>w. \<not> (\<exists>wp r. c_wireProperties w = Some wp \<and> wp_resistance wp = Some r \<and> r \<noteq> 0) \<longrightarrow>
      wireR w = 0.05)"
proof (intro conjI allI impI)
  fix sid aux h l src
  assume a: "resolveCircuit conns i = Some (sid, aux, h, l) \<and>
      find (\<lambda>c. cmp_id c = sid) comps = Some src \<and>
      st_power (cmp_state src) \<and>
      (cmp_type src = ''fluke5500a'' \<or> cmp_type src = ''fluke5522a'') \<and>
      st_output (cmp_state src) \<and>
      st_mode (cmp_state src) = Some ''Resistance''"
  have nv: "\<not> str_includes ''Resistance'' ''Voltage''" by simp
  from a nv have lm: "Multimeter_loading True (wireR h + wireR l) (cmp_state src) =
      Inr (Some (st_value (cmp_state src) + (wireR h + wireR l)))"
    and lfl: "Fluke117_loading True (wireR h + wireR l) (cmp_state src) =
      Some (st_value (cmp_state src) + (wireR h + wireR l))"
    by (simp_all add: Multimeter_loading_def Fluke117_loading_def)
  from a show "\<exists>cv. M = Inr (Some cv) \<and>
            cv_value cv = st_value (cmp_state src) + (wireR h + wireR l)"
    unfolding M_def by (simp add: loaded_value lm)
  from a show "\<exists>cv. F = Inr (Some cv) \<and>
            cv_value cv = st_value (cmp_state src) + (wireR h + wireR l)"
    unfolding F_def by (simp add: loaded_value lfl)
next
  fix w :: connection and wp :: wire_properties and r :: real
  assume "c_wireProperties w = Some wp \<and> wp_resistance wp = Some r \<and> r \<noteq> 0"
  then show "wireR w = r" by (simp add: wireR_def resistanceField_def)
next
  fix w :: connection
  assume "\<not> (\<exists>wp r. c_wireProperties w = Some wp \<and> wp_resistance wp = Some r \<and> r \<noteq> 0)"
  then show "wireR w = 0.05"
    by (auto simp: wireR_def resistanceField_def split: option.splits)
qed

theorem resistance_loading_witness:
  "(\<exists>cv. Multimeter_getConnectedValue True [badHi, badLo] benchOhm 1 = Inr (Some cv) \<and>
         cv_value cv = 1010) \<and>
   (\<exists>cv. Fluke117_getConnectedValue True [badHi, badLo] benchOhm 1 = Inr (Some cv) \<and>
         cv_value cv = 1010) \<and>
   wireR badHi + wireR badLo = 10"
proof -
  have r: "resolveCircuit [badHi, badLo] 1 = Some (0, False, badHi, badLo)"
    by (simp add: measure_defs ohm_example_defs)
  have s: "find (\<lambda>c. cmp_id c = 0) benchOhm = Some sourceOhm"
    by (simp add: ohm_example_defs)
  have st: "st_power (cmp_state sourceOhm)" "cmp_type sourceOhm = ''fluke5500a''"
    "st_output (cmp_state sourceOhm)" "st_mode (cmp_state sourceOhm) = Some ''Resistance''"
    "st_value (cmp_state sourceOhm) = 1000"
    by (simp_all add: ohm_example_defs bench_defs)
  have f: "c_wireProperties badHi = Some \<lparr> wp_type = Some ''bad'', wp_resistance = Some 5 \<rparr>"
    "c_wireProperties badLo = Some \<lparr> wp_type = Some ''bad'', wp_resistance = Some 5 \<rparr>"
    by (simp_all add: ohm_example_defs)
  note t = resistance_loading [where conns = "[badHi, badLo]" and comps = benchOhm and i = 1]
  from t [THEN conjunct2, THEN conjunct1, rule_format, of badHi _ 5]
    t [THEN conjunct2, THEN conjunct1, rule_format, of badLo _ 5] f
  have w: "wireR badHi + wireR badLo = 10" by simp
  from t [THEN conjunct1, rule_format, of 0 False badHi badLo sourceOhm, unfolded w st(5)]
    r s st
  have "(\<exists>cv. Multimeter_getConnectedValue True [badHi, badLo] benchOhm 1 = Inr (Some cv) \<and>
         cv_value cv = 1010) \<and>
   (\<exists>cv. Fluke117_getConnectedValue True [badHi, badLo] benchOhm 1 = Inr (Some cv) \<and>
         cv_value cv = 1010)"
    by simp
  with w show ?thesis by simp
qed

text \<open>
  The claim's resolver is not that of every measuring device: the U3606A never reads the
  loading-error flag.  With the flag enabled, a calibrator that is programmed to 1000
  ohms and wired with two bad wires of 5.0 ohms each is read as 1000, not as 1010.
\<close>

theorem u3606a_resistance_counterexample:
  "loadingError (errorSimulation u3606aOhms) \<and>
   cmp_type (components u3606aOhms ! 1) = ''u3606a'' \<and>
   st_mode (cmp_state (components u3606aOhms ! 0)) = Some ''Resistance'' \<and>
   map resistanceField (connections u3606aOhms) = [Some 5, Some 5] \<and>
   resolveCircuit (connections u3606aOhms) 1 =
     Some (0, False, connections u3606aOhms ! 0, connections u3606aOhms ! 1) \<and>
   U3606A_getConnectedValue (connections u3606aOhms) (components u3606aOhms) 1 =
     Some \<lparr> rd_value = 1000, rd_unit = OHM, rd_active = True \<rparr> \<and>
   U3606A_baseValue (cmp_state (components u3606aOhms ! 1))
     (U3606A_getConnectedValue (connections u3606aOhms) (components u3606aOhms) 1) = 1000 \<and>
   (1000 :: real) \<noteq> 1000 + (5 + 5)"
  unfolding u3606aOhms_store(1,2)
  using u3606aOhms_store(3)
  by (simp add: device_defs measure_defs U3606A_getConnectedValue_def U3606A_baseValue_def)


subsection \<open>The base value in Hz mode\<close>

lemma result_fields:
  assumes r: "resolveCircuit conns i = Some (sid, aux, h, l)"
    and s: "find (\<lambda>c. cmp_id c = sid) comps = Some src"
  shows "Multimeter_getConnectedValue le conns comps i = Inr (Some cv) \<Longrightarrow>
           cv_active cv \<and>
           (if cmp_type src = ''fluke5500a'' \<or> cmp_type src = ''fluke5522a''
            then cv_mode cv = st_mode (cmp_state src) \<and>
                 cv_frequency cv = Some (frequencyOr1000 (st_frequency (cmp_state src)))
            else cv_mode cv = None)"
    and "Fluke117_getConnectedValue le conns comps i = Inr (Some cv) \<Longrightarrow>
           cv_active cv \<and>
           (cmp_type src = ''fluke5500a'' \<or> cmp_type src = ''fluke5522a'') \<and>
           cv_mode cv = st_mode (cmp_state src) \<and>
           cv_frequency cv = Some (frequencyOr1000 (st_frequency (cmp_state src)))"
  using assms
  by (auto simp: Multimeter_getConnectedValue_def Fluke117_getConnectedValue_def Let_def
      split: sum.splits option.splits if_splits)

text \<open>
  Claim C7, as the code has it.  A multimeter or a Fluke 117 whose selected mode is
  \<open>Hz\<close> and whose \<open>getConnectedValue\<close> returns a result for the resolved source
  shows as base value:
  \<^item> for a calibrator (Fluke 5500A or 5522A) whose mode is \<open>AC Voltage\<close> or
    \<open>AC Current\<close> and whose programmed frequency is not 0, that frequency, never the
    amplitude;
  \<^item> zero for every other source: a calibrator in another mode or without a mode, and
    an RF generator.
\<close>

theorem hz_base_value:
  fixes state :: device_state and conns :: "connection list" and comps :: "component list"
    and i :: int and le :: bool and M F :: "js_outcome + connected_value option"
    and acSource :: "component \<Rightarrow> bool"
  defines "M \<equiv> Multimeter_getConnectedValue le conns comps i"
    and "F \<equiv> Fluke117_getConnectedValue le conns comps i"
    and "acSource \<equiv> (\<lambda>src.
           (cmp_type src = ''fluke5500a'' \<or> cmp_type src = ''fluke5522a'') \<and>
           (st_mode (cmp_state src) = Some ''AC Voltage'' \<or>
            st_mode (cmp_state src) = Some ''AC Current''))"
  shows
  "\<forall>sid aux h l src cv.
      st_mode state = Some ''Hz'' \<and>
      resolveCircuit conns i = Some (sid, aux, h, l) \<and>
      find (\<lambda>c. cmp_id c = sid) comps = Some src \<longrightarrow>
      (M = Inr (Some cv) \<longrightarrow>
         (\<forall>f. acSource src \<and> st_frequency (cmp_state src) = Some f \<and> f \<noteq> 0 \<longrightarrow>
              Multimeter_baseValue state (Some cv) = Some f) \<and>
         (\<not> acSource src \<longrightarrow> Multimeter_baseValue state (Some cv) = Some 0)) \<and>
      (F = Inr (Some cv) \<longrightarrow>
         (\<forall>f. acSource src \<and> st_frequency (cmp_state src) = Some f \<and> f \<noteq> 0 \<longrightarrow>
              Fluke117_baseValue state (Some cv) = Some f) \<and>
         (\<not> acSource src \<longrightarrow> Fluke117_baseValue state (Some cv) = Some 0))"
proof (intro conjI allI impI)
  fix sid aux h l src cv
  assume a: "st_mode state = Some ''Hz'' \<and>
      resolveCircuit conns i = Some (sid, aux, h, l) \<and>
      find (\<lambda>c. cmp_id c = sid) comps = Some src"
  then have r: "resolveCircuit conns i = Some (sid, aux, h, l)"
    and s: "find (\<lambda>c. cmp_id c = sid) comps = Some src"
    and hz: "st_mode state = Some ''Hz''" by simp_all
  {
    assume m: "M = Inr (Some cv)"
    note rf = result_fields(1) [OF r s m [unfolded M_def]]
    {
      fix f assume "acSource src \<and> st_frequency (cmp_state src) = Some f \<and> f \<noteq> 0"
      with rf hz show "Multimeter_baseValue state (Some cv) = Some f"
        unfolding acSource_def
        by (auto simp: Multimeter_baseValue_def frequencyOr1000_def)
    }
    {
      assume "\<not> acSource src"
      with rf hz show "Multimeter_baseValue state (Some cv) = Some 0"
        unfolding acSource_def
        by (auto simp: Multimeter_baseValue_def split: if_splits)
    }
  }
  {
    assume m: "F = Inr (Some cv)"
    note rf = result_fields(2) [OF r s m [unfolded F_def]]
    {
      fix f assume "acSource src \<and> st_frequency (cmp_state src) = Some f \<and> f \<noteq> 0"
      with rf hz show "Fluke117_baseValue state (Some cv) = Some f"
        unfolding acSource_def
        by (auto simp: Fluke117_baseValue_def frequencyOr1000_def)
    }
    {
      assume "\<not> acSource src"
      with rf hz show "Fluke117_baseValue state (Some cv) = Some 0"
        unfolding acSource_def
        by (auto simp: Fluke117_baseValue_def split: if_splits)
    }
  }
qed

theorem hz_base_value_witness:
  "Multimeter_getConnectedValue False [hiWire01, loWire01] [sourceAC (Some 60), meterHz] 1 =
     Inr (Some \<lparr> cv_value = 5, cv_unit = ''V'', cv_mode = Some ''AC Voltage'',
                 cv_mappedMode = Some (ModeName ''AC V''), cv_frequency = Some 60,
                 cv_active = True, cv_wireResistance = Some 0 \<rparr>) \<and>
   Multimeter_baseValue (cmp_state meterHz)
     (Some \<lparr> cv_value = 5, cv_unit = ''V'', cv_mode = Some ''AC Voltage'',
             cv_mappedMode = Some (ModeName ''AC V''), cv_frequency = Some 60,
             cv_active = True, cv_wireResistance = Some 0 \<rparr>) = Some 60 \<and>
   Fluke117_getConnectedValue False [hiWire01, loWire01] [sourceAC (Some 60), meterHz] 1 =
     Inr (Some \<lparr> cv_value = 5, cv_unit = ''V'', cv_mode = Some ''AC Voltage'',
                 cv_mappedMode = Some (ModeName ''AC V''), cv_frequency = Some 60,
                 cv_active = True, cv_wireResistance = None \<rparr>) \<and>
   Fluke117_baseValue meterHz117
     (Some \<lparr> cv_value = 5, cv_unit = ''V'', cv_mode = Some ''AC Voltage'',
             cv_mappedMode = Some (ModeName ''AC V''), cv_frequency = Some 60,
             cv_active = True, cv_wireResistance = None \<rparr>) = Some 60 \<and>
   Multimeter_baseValue (cmp_state meterHz)
     (Some \<lparr> cv_value = 10, cv_unit = ''V'', cv_mode = Some ''DC Voltage'',
             cv_mappedMode = Some (ModeName ''DC V''), cv_frequency = Some 1000,
             cv_active = True, cv_wireResistance = Some 0 \<rparr>) = Some 0 \<and>
   Fluke117_baseValue meterHz117
     (Some \<lparr> cv_value = 10, cv_unit = ''V'', cv_mode = Some ''DC Voltage'',
             cv_mappedMode = Some (ModeName ''DC V''), cv_frequency = Some 1000,
             cv_active = True, cv_wireResistance = None \<rparr>) = Some 0"
proof -
  let ?w = "[hiWire01, loWire01]"
  let ?acM = "\<lparr> cv_value = 5, cv_unit = ''V'', cv_mode = Some ''AC Voltage'',
             cv_mappedMode = Some (ModeName ''AC V''), cv_frequency = Some 60,
             cv_active = True, cv_wireResistance = Some 0 \<rparr>"
  let ?acF = "\<lparr> cv_value = 5, cv_unit = ''V'', cv_mode = Some ''AC Voltage'',
             cv_mappedMode = Some (ModeName ''AC V''), cv_frequency = Some 60,
             cv_active = True, cv_wireResistance = None \<rparr>"
  let ?dcM = "\<lparr> cv_value = 10, cv_unit = ''V'', cv_mode = Some ''DC Voltage'',
             cv_mappedMode = Some (ModeName ''DC V''), cv_frequency = Some 1000,
             cv_active = True, cv_wireResistance = Some 0 \<rparr>"
  let ?dcF = "\<lparr> cv_value = 10, cv_unit = ''V'', cv_mode = Some ''DC Voltage'',
             cv_mappedMode = Some (ModeName ''DC V''), cv_frequency = Some 1000,
             cv_active = True, cv_wireResistance = None \<rparr>"
  let ?acBench = "[sourceAC (Some 60), meterHz]"
  have ac: "st_mode (cmp_state meterHz) = Some ''Hz'' \<and>
      resolveCircuit ?w 1 = Some (0, False, hiWire01, loWire01) \<and>
      find (\<lambda>c. cmp_id c = 0) ?acBench = Some (sourceAC (Some 60))"
    "st_mode meterHz117 = Some ''Hz'' \<and>
      resolveCircuit ?w 1 = Some (0, False, hiWire01, loWire01) \<and>
      find (\<lambda>c. cmp_id c = 0) ?acBench = Some (sourceAC (Some 60))"
    by (simp_all add: measure_defs bench_defs hz_example_defs)
  have dc: "st_mode (cmp_state meterHz) = Some ''Hz'' \<and>
      resolveCircuit ?w 1 = Some (0, False, hiWire01, loWire01) \<and>
      find (\<lambda>c. cmp_id c = 0) benchComponents = Some sourceOn"
    "st_mode meterHz117 = Some ''Hz'' \<and>
      resolveCircuit ?w 1 = Some (0, False, hiWire01, loWire01) \<and>
      find (\<lambda>c. cmp_id c = 0) benchComponents = Some sourceOn"
    by (simp_all add: measure_defs bench_defs hz_example_defs)
  have mac: "Multimeter_getConnectedValue False ?w ?acBench 1 = Inr (Some ?acM)"
    and fac: "Fluke117_getConnectedValue False ?w ?acBench 1 = Inr (Some ?acF)"
    and mdc: "Multimeter_getConnectedValue False ?w benchComponents 1 = Inr (Some ?dcM)"
    and fdc: "Fluke117_getConnectedValue False ?w benchComponents 1 = Inr (Some ?dcF)"
    by (simp_all add: measure_defs bench_defs hz_example_defs)
  have isac: "((cmp_type (sourceAC (Some 60)) = ''fluke5500a'' \<or>
                cmp_type (sourceAC (Some 60)) = ''fluke5522a'') \<and>
               (st_mode (cmp_state (sourceAC (Some 60))) = Some ''AC Voltage'' \<or>
                st_mode (cmp_state (sourceAC (Some 60))) = Some ''AC Current'')) \<and>
              st_frequency (cmp_state (sourceAC (Some 60))) = Some 60 \<and> (60 :: real) \<noteq> 0"
    by (simp add: hz_example_defs)
  have isdc: "\<not> ((cmp_type sourceOn = ''fluke5500a'' \<or> cmp_type sourceOn = ''fluke5522a'') \<and>
               (st_mode (cmp_state sourceOn) = Some ''AC Voltage'' \<or>
                st_mode (cmp_state sourceOn) = Some ''AC Current''))"
    by (simp add: bench_defs)
  note 1 = hz_base_value [where state = "cmp_state meterHz" and conns = ?w and i = 1
      and le = False and comps = ?acBench, rule_format, OF ac(1), THEN conjunct1, rule_format,
      OF mac, THEN conjunct1, rule_format, OF isac]
  note 2 = hz_base_value [where state = meterHz117 and conns = ?w and i = 1
      and le = False and comps = ?acBench, rule_format, OF ac(2), THEN conjunct2, rule_format,
      OF fac, THEN conjunct1, rule_format, OF isac]
  note 3 = hz_base_value [where state = "cmp_state meterHz" and conns = ?w and i = 1
      and le = False and comps = benchComponents, rule_format, OF dc(1), THEN conjunct1,
      rule_format, OF mdc, THEN conjunct2, rule_format, OF isdc]
  note 4 = hz_base_value [where state = meterHz117 and conns = ?w and i = 1
      and le = False and comps = benchComponents, rule_format, OF dc(2), THEN conjunct2,
      rule_format, OF fdc, THEN conjunct2, rule_format, OF isdc]
  from mac fac 1 2 3 4 show ?thesis by (simp only: simp_thms)
qed

text \<open>
  The claim's "every measuring device" fails: the U3606A has a dial position \<open>FREQ\<close>,
  labelled Hz, and shows the amplitude at every position.  Wired to a calibrator that is
  programmed to 5 V AC at 60 Hz, it shows 5 as its base value, not 60; and its base
  value does not depend on its mode at all.
\<close>

theorem u3606a_hz_counterexample:
  "cmp_type (components u3606aHertz ! 1) = ''u3606a'' \<and>
   st_mode (cmp_state (components u3606aHertz ! 1)) = Some ''FREQ'' \<and>
   st_unit (cmp_state (components u3606aHertz ! 1)) = ''Hz'' \<and>
   st_mode (cmp_state (components u3606aHertz ! 0)) = Some ''AC Voltage'' \<and>
   st_frequency (cmp_state (components u3606aHertz ! 0)) = Some 60 \<and>
   U3606A_getConnectedValue (connections u3606aHertz) (components u3606aHertz) 1 =
     Some \<lparr> rd_value = 5, rd_unit = ''V'', rd_active = True \<rparr> \<and>
   U3606A_baseValue (cmp_state (components u3606aHertz ! 1))
     (U3606A_getConnectedValue (connections u3606aHertz) (components u3606aHertz) 1) = 5 \<and>
   U3606A_baseValue ((cmp_state (components u3606aHertz ! 1)) \<lparr> st_mode := Some ''Hz'' \<rparr>)
     (U3606A_getConnectedValue (connections u3606aHertz) (components u3606aHertz) 1) = 5"
  unfolding u3606aHertz_store
  by (simp add: device_defs measure_defs U3606A_getConnectedValue_def U3606A_baseValue_def)


subsection \<open>Fluctuation\<close>












end
